theory Spec2Isabelle
  imports Complex_Main
begin

section \<open>Data model\<close>

text \<open>
  The inventory tables of the bakery backend, as the views and the order signal use them.
  Quantities are Python \<open>Decimal\<close> values (and the JSON numbers they are built from with
  \<open>Decimal(str(x))\<close>); they are read as the rational numbers they denote.  The operations
  are written first over exact numbers, which is enough wherever a rounding cannot change
  the answer; the section on decimal arithmetic writes them again with the roundings of
  the program, and what is said about the values in the movement ledger is proved there.
  A table is the list of its rows in the order a query returns them; the movement table
  is kept in creation order.
\<close>

record ingredient =
  ing_id :: nat
  ing_name :: string
  ing_unit :: string
  current_stock :: rat
  unit_cost :: rat

text \<open>The two values of \<open>movement_type\<close> that the operations below write: 'in' and 'out'.\<close>

datatype movement_type = In | Out

record stock_movement =
  mv_ingredient :: nat
  mv_type :: movement_type
  quantity :: rat
  previous_stock :: rat
  new_stock :: rat
  mv_unit_cost :: rat
  total_value :: rat
  reference :: string
  mv_notes :: string
  created_by :: nat

record user =
  user_id :: nat
  user_type :: string
  is_admin :: bool
  is_inventory_manager :: bool
  is_staff_member :: bool

record purchase_order_item =
  poi_id :: nat
  poi_purchase_order :: nat
  poi_ingredient :: nat
  poi_quantity :: rat
  received_quantity :: rat
  poi_unit_cost :: rat

record purchase_order =
  po_id :: nat
  po_number :: string
  po_status :: string
  delivery_date :: "string option"

record db =
  ingredients :: "ingredient list"
  movements :: "stock_movement list"
  users :: "user list"
  po_items :: "purchase_order_item list"

text \<open>
  \<open>cake.ingredients\<close> is a JSON list.  An entry that the loop body can process is a
  dictionary in which a key may be missing, whose name is a string and whose quantity is
  a finite number.  \<open>Raises\<close> stands for every other entry on which the body raises before
  it looks anything up: an entry that is not a dictionary (\<open>.get\<close> raises
  \<open>AttributeError\<close>), or one with a non-empty name whose quantity is not a number
  (\<open>ingredient_quantity <= 0\<close> raises \<open>TypeError\<close>).
\<close>

record ingredient_data =
  d_name :: "string option"
  d_quantity :: "rat option"
  d_unit :: "string option"

datatype recipe_entry = Line ingredient_data | Raises

record cake =
  cake_name :: string
  cake_ingredients :: "recipe_entry list"

record order_item =
  oi_cake :: cake
  oi_quantity :: int

text \<open>
  An \<open>Order\<close> instance as the signal handler sees it.  \<open>ingredients_deducted\<close> is
  \<open>hasattr(instance, '_ingredients_deducted')\<close>: an attribute of the Python object, which no
  table holds, so an instance loaded from the database starts with it \<open>False\<close>.
\<close>

record order =
  order_number :: string
  order_status :: string
  items :: "order_item list"
  ingredients_deducted :: bool

text \<open>What the handlers print, as values.\<close>

datatype event =
    No_system_user
  | No_ingredients string
  | Ingredient_not_found string
  | Multiple_ingredients string
  | Insufficient_stock string rat rat
  | Deducted rat string string string
  | Error_deducting string

section \<open>Row operations\<close>

definition lower_char :: "char \<Rightarrow> char" where
  "lower_char c =
     (let n = (of_char c :: nat) in if 65 \<le> n \<and> n \<le> 90 then char_of (n + 32) else c)"

definition iexact :: "string \<Rightarrow> string \<Rightarrow> bool" where
  "iexact a b = (map lower_char a = map lower_char b)"

definition save_ingredient :: "ingredient \<Rightarrow> db \<Rightarrow> db" where
  "save_ingredient i d =
     d\<lparr>ingredients := map (\<lambda>r. if ing_id r = ing_id i then i else r) (ingredients d)\<rparr>"

definition create_movement :: "stock_movement \<Rightarrow> db \<Rightarrow> db" where
  "create_movement m d = d\<lparr>movements := movements d @ [m]\<rparr>"

definition save_po_item :: "purchase_order_item \<Rightarrow> db \<Rightarrow> db" where
  "save_po_item x d =
     d\<lparr>po_items := map (\<lambda>r. if poi_id r = poi_id x then x else r) (po_items d)\<rparr>"

fun show_nat :: "nat \<Rightarrow> string" where
  "show_nat n =
     (if n < 10 then [char_of (48 + n)] else show_nat (n div 10) @ [char_of (48 + n mod 10)])"

definition show_int :: "int \<Rightarrow> string" where
  "show_int i = (if i < 0 then CHR ''-'' # show_nat (nat (- i)) else show_nat (nat i))"

section \<open>Automatic deduction on order confirmation (orders/signals.py)\<close>

text \<open>
  One pass of the loop over \<open>cake_ingredients\<close>.  \<open>Ingredient.objects.get(name__iexact=...)\<close>
  finds no row (warning, \<open>continue\<close>), one row, or several (warning, the first one).
  The entry is one the body can process (a name that is a string, a quantity that is a
  finite number), so this pass raises nothing.
\<close>

definition deduct_ingredient ::
  "cake \<Rightarrow> int \<Rightarrow> order \<Rightarrow> user \<Rightarrow> ingredient_data \<Rightarrow> db \<times> event list \<Rightarrow> db \<times> event list" where
  "deduct_ingredient ck qty ord system_user idata st =
     (let d = fst st; log = snd st;
          ingredient_name = (case d_name idata of None \<Rightarrow> [] | Some n \<Rightarrow> n);
          ingredient_quantity = (case d_quantity idata of None \<Rightarrow> 0 | Some q \<Rightarrow> q);
          ingredient_unit = (case d_unit idata of None \<Rightarrow> ''kg'' | Some u \<Rightarrow> u)
      in if ingredient_name = [] \<or> ingredient_quantity \<le> 0 then st
         else
           (case filter (\<lambda>i. iexact (ing_name i) ingredient_name) (ingredients d) of
              [] \<Rightarrow> (d, log @ [Ingredient_not_found ingredient_name])
            | i # others \<Rightarrow>
                (let log1 = (if others = [] then log
                             else log @ [Multiple_ingredients ingredient_name]);
                     required = ingredient_quantity * of_int qty;
                     short = (current_stock i < required);
                     log2 = (if short
                             then log1 @ [Insufficient_stock ingredient_name required (current_stock i)]
                             else log1);
                     total_quantity_needed = (if short then current_stock i else required)
                 in if total_quantity_needed > 0 then
                      (let previous = current_stock i;
                           new = max 0 (previous - total_quantity_needed)
                       in (create_movement
                             \<lparr>mv_ingredient = ing_id i, mv_type = Out,
                              quantity = total_quantity_needed,
                              previous_stock = previous, new_stock = new,
                              mv_unit_cost = unit_cost i,
                              total_value = total_quantity_needed * unit_cost i,
                              reference = ''ORDER-'' @ order_number ord,
                              mv_notes = ''Automatic deduction for order #'' @ order_number ord
                                      @ '' - '' @ cake_name ck @ '' (x'' @ show_int qty @ '')'',
                              created_by = user_id system_user\<rparr>
                             (save_ingredient (i\<lparr>current_stock := new\<rparr>) d),
                           log2 @ [Deducted total_quantity_needed ingredient_unit
                                     ingredient_name (order_number ord)]))
                    else (d, log2))))"

text \<open>
  The \<open>for\<close> loop over the entries, inside the \<open>try\<close> of \<open>deduct_ingredients_for_cake\<close>:
  an exception in one pass leaves the loop, the handler prints an error for the cake, and
  the entries that remain are not processed.  What earlier passes have written stays
  written.
\<close>

fun deduct_entries ::
  "(ingredient_data \<Rightarrow> db \<times> event list \<Rightarrow> db \<times> event list) \<Rightarrow> string \<Rightarrow> recipe_entry list
     \<Rightarrow> db \<times> event list \<Rightarrow> db \<times> event list" where
  "deduct_entries body name [] st = st"
| "deduct_entries body name (Raises # entries) st = (fst st, snd st @ [Error_deducting name])"
| "deduct_entries body name (Line idata # entries) st =
     deduct_entries body name entries (body idata st)"

definition deduct_ingredients_for_cake ::
  "cake \<Rightarrow> int \<Rightarrow> order \<Rightarrow> user \<Rightarrow> db \<times> event list \<Rightarrow> db \<times> event list" where
  "deduct_ingredients_for_cake ck qty ord system_user st =
     (if cake_ingredients ck = [] then (fst st, snd st @ [No_ingredients (cake_name ck)])
      else deduct_entries (deduct_ingredient ck qty ord system_user) (cake_name ck)
             (cake_ingredients ck) st)"

text \<open>The loop \<open>for order_item in instance.items.all()\<close>.\<close>

definition deduct_order_items ::
  "order \<Rightarrow> user \<Rightarrow> order_item list \<Rightarrow> db \<times> event list \<Rightarrow> db \<times> event list" where
  "deduct_order_items instance system_user order_items st =
     fold (\<lambda>order_item.
             deduct_ingredients_for_cake (oi_cake order_item) (oi_quantity order_item)
               instance system_user)
       order_items st"

definition deduct_ingredients_on_order_confirmation ::
  "db \<Rightarrow> order \<Rightarrow> (db \<times> event list) \<times> order" where
  "deduct_ingredients_on_order_confirmation d instance =
     (if order_status instance \<in> set [''confirmed'', ''preparing''] then
        if ingredients_deducted instance then ((d, []), instance)
        else
          (case filter (\<lambda>u. user_type u \<in> set [''admin'', ''inventory_manager'']) (users d) of
             [] \<Rightarrow> ((d, [No_system_user]), instance)
           | system_user # _ \<Rightarrow>
               (deduct_order_items instance system_user (items instance) (d, []),
                instance\<lparr>ingredients_deducted := True\<rparr>))
      else ((d, []), instance))"

section \<open>Manual deduction (IngredientViewSet.deduct_stock)\<close>

text \<open>
  The request's \<open>amount\<close>, by what Python does with it: a falsy value (missing, \<open>None\<close>, \<open>0\<close>,
  the empty string) is refused by \<open>not deduction_amount\<close>; a value on which \<open>float()\<close> raises
  \<open>ValueError\<close> or \<open>TypeError\<close>; or a value that \<open>float()\<close> converts, to a finite number, an
  infinity or a NaN.  A finite amount is read as the number it denotes: the float that is
  compared with the balance and the \<open>Decimal(str(...))\<close> of it that is subtracted are the
  same rational.  Comparing a \<open>Decimal\<close> with a NaN raises \<open>InvalidOperation\<close>, and
  \<open>float()\<close> of an integer too large for a float raises \<open>OverflowError\<close>; the view
  catches neither.
\<close>

datatype pyfloat = Finite rat | Pos_inf | Neg_inf | NaN

datatype amount = Falsy | Unparsable | Overflows | Parsed pyfloat

datatype response =
    Permission_denied
  | Not_found
  | Forbidden
  | Amount_required
  | Must_be_positive
  | Invalid_amount
  | Insufficient rat pyfloat
  | Invalid_operation
  | Overflow_error
  | Deducted_ok rat string rat rat

definition may_use_ingredients :: "user \<Rightarrow> bool" where
  "may_use_ingredients u = (is_admin u \<or> is_inventory_manager u \<or> is_staff_member u)"

definition get_object :: "db \<Rightarrow> user \<Rightarrow> nat \<Rightarrow> response + ingredient" where
  "get_object d u pk =
     (if \<not> may_use_ingredients u \<or> ingredients d = [] then Inl Permission_denied
      else case find (\<lambda>i. ing_id i = pk) (ingredients d) of
             None \<Rightarrow> Inl Not_found
           | Some i \<Rightarrow> Inr i)"

definition deduct_stock ::
  "db \<Rightarrow> user \<Rightarrow> nat \<Rightarrow> amount \<Rightarrow> string option \<Rightarrow> string \<Rightarrow> db \<times> response" where
  "deduct_stock d u pk amt reason now =
     (case get_object d u pk of
        Inl r \<Rightarrow> (d, r)
      | Inr i \<Rightarrow>
          if \<not> (is_admin u \<or> is_inventory_manager u \<or> is_staff_member u) then (d, Forbidden)
          else
            (case amt of
               Falsy \<Rightarrow> (d, Amount_required)
             | Unparsable \<Rightarrow> (d, Invalid_amount)
             | Overflows \<Rightarrow> (d, Overflow_error)
             | Parsed Neg_inf \<Rightarrow> (d, Must_be_positive)
             | Parsed NaN \<Rightarrow> (d, Invalid_operation)
             | Parsed Pos_inf \<Rightarrow> (d, Insufficient (current_stock i) Pos_inf)
             | Parsed (Finite deduction_amount) \<Rightarrow>
                 if deduction_amount \<le> 0 then (d, Must_be_positive)
                 else if current_stock i < deduction_amount
                 then (d, Insufficient (current_stock i) (Finite deduction_amount))
                 else
                   (let previous = current_stock i;
                        new = previous - deduction_amount
                    in (create_movement
                          \<lparr>mv_ingredient = ing_id i, mv_type = Out,
                           quantity = deduction_amount,
                           previous_stock = previous, new_stock = new,
                           mv_unit_cost = unit_cost i,
                           total_value = deduction_amount * unit_cost i,
                           reference = ''MANUAL-'' @ now,
                           mv_notes = ''Manual deduction: ''
                                   @ (case reason of None \<Rightarrow> ''Manual deduction'' | Some r \<Rightarrow> r),
                           created_by = user_id u\<rparr>
                          (save_ingredient (i\<lparr>current_stock := new\<rparr>) d),
                        Deducted_ok deduction_amount (ing_unit i) previous new))))"

section \<open>Purchase-order receipt (PurchaseOrderViewSet.receive_items)\<close>

text \<open>
  Modelled from the spec: the Stock Register \<open>add\<close>.  \<open>receive_items\<close> creates the 'in'
  movement with \<open>StockMovement.objects.create\<close> and passes neither \<open>previous_stock\<close> nor
  \<open>new_stock\<close> and does not touch the ingredient; what saving that movement does to the
  balance is in inventory/models.py, which is not among the sources.  The spec's \<open>add\<close>
  reads the current balance, computes the new balance, writes it together with the
  incoming unit cost, and appends the movement with both balances and the total value
  \<open>quantity \<times> unit_cost\<close>.  The foreign key of a line names a row of the ingredient table;
  for an id with no row nothing is written.
\<close>

definition stock_register_add ::
  "nat \<Rightarrow> rat \<Rightarrow> rat \<Rightarrow> string \<Rightarrow> string \<Rightarrow> nat \<Rightarrow> db \<Rightarrow> db" where
  "stock_register_add ing q cost ref note actor d =
     (case find (\<lambda>i. ing_id i = ing) (ingredients d) of
        None \<Rightarrow> d
      | Some i \<Rightarrow>
          (let previous = current_stock i; new = previous + q
           in create_movement
                \<lparr>mv_ingredient = ing_id i, mv_type = In, quantity = q,
                 previous_stock = previous, new_stock = new,
                 mv_unit_cost = cost, total_value = q * cost,
                 reference = ref, mv_notes = note, created_by = actor\<rparr>
                (save_ingredient (i\<lparr>current_stock := new, unit_cost := cost\<rparr>) d)))"

record received_item =
  item_id :: nat
  ri_received_quantity :: rat

definition receive_item :: "purchase_order \<Rightarrow> user \<Rightarrow> received_item \<Rightarrow> db \<Rightarrow> db" where
  "receive_item po u item_data d =
     (case find (\<lambda>x. poi_id x = item_id item_data \<and> poi_purchase_order x = po_id po)
             (po_items d) of
        None \<Rightarrow> d
      | Some po_item \<Rightarrow>
          (let d1 = save_po_item
                      (po_item\<lparr>received_quantity := ri_received_quantity item_data\<rparr>) d
           in if ri_received_quantity item_data > 0
              then stock_register_add (poi_ingredient po_item) (ri_received_quantity item_data)
                     (poi_unit_cost po_item) (''PO #'' @ po_number po)
                     ''Received from purchase order'' (user_id u) d1
              else d1))"

definition all_received :: "db \<Rightarrow> purchase_order \<Rightarrow> bool" where
  "all_received d po =
     list_all (\<lambda>item. received_quantity item \<ge> poi_quantity item)
       (filter (\<lambda>item. poi_purchase_order item = po_id po) (po_items d))"

definition receive_items ::
  "db \<Rightarrow> purchase_order \<Rightarrow> user \<Rightarrow> received_item list \<Rightarrow> string \<Rightarrow> db \<times> purchase_order" where
  "receive_items d po u received today =
     (let d' = fold (receive_item po u) received d
      in (d', if all_received d' po
              then po\<lparr>po_status := ''received'', delivery_date := Some today\<rparr>
              else po))"

section \<open>Availability check (RecipeViewSet.check_availability)\<close>

record recipe_ingredient =
  ri_ingredient :: ingredient
  ri_quantity :: rat

record recipe =
  recipe_name :: string
  recipe_ingredients :: "recipe_ingredient list"

record unavailable =
  un_ingredient :: string
  un_required :: rat
  un_available :: rat
  un_shortage :: rat

record availability =
  av_recipe :: string
  av_servings :: int
  av_available :: bool
  av_unavailable_ingredients :: "unavailable list"

definition check_availability :: "recipe \<Rightarrow> int option \<Rightarrow> availability" where
  "check_availability r req_servings =
     (let servings = (case req_servings of None \<Rightarrow> 1 | Some n \<Rightarrow> n);
          unavailable_ingredients =
            concat (map (\<lambda>ri.
                let required_quantity = ri_quantity ri * of_int servings;
                    available_quantity = current_stock (ri_ingredient ri)
                in if available_quantity < required_quantity
                   then [\<lparr>un_ingredient = ing_name (ri_ingredient ri),
                          un_required = required_quantity,
                          un_available = available_quantity,
                          un_shortage = required_quantity - available_quantity\<rparr>]
                   else [])
              (recipe_ingredients r))
      in \<lparr>av_recipe = recipe_name r, av_servings = servings,
          av_available = (length unavailable_ingredients = 0),
          av_unavailable_ingredients = unavailable_ingredients\<rparr>)"

section \<open>Sequences of stock-affecting operations\<close>

datatype operation =
    Order_saved order
  | Manual_deduct user nat amount "string option" string
  | Receive purchase_order user "received_item list" string

fun apply_operation :: "operation \<Rightarrow> db \<Rightarrow> db" where
  "apply_operation (Order_saved ord) d = fst (fst (deduct_ingredients_on_order_confirmation d ord))"
| "apply_operation (Manual_deduct u pk amt reason now) d = fst (deduct_stock d u pk amt reason now)"
| "apply_operation (Receive po u received today) d = fst (receive_items d po u received today)"

definition run :: "operation list \<Rightarrow> db \<Rightarrow> db" where
  "run ops d = fold apply_operation ops d"

section \<open>Decimal arithmetic\<close>

text \<open>
  The operations above compute with exact numbers.  The program computes with Python
  \<open>Decimal\<close> values and stores them in \<open>DecimalField\<close> columns, and three roundings stand
  between the two:
  \<^item> \<open>ctx\<close>: the result of a \<open>Decimal\<close> multiplication, subtraction or addition is rounded to
    the precision of the context;
  \<^item> \<open>stored\<close>: a \<open>Decimal\<close> written to a column is rounded to the column's decimal places
    (the object in memory keeps the unrounded value, a later query returns the rounded
    one);
  \<^item> \<open>float_str\<close>: the manual endpoint compares the balance with \<open>float(amount)\<close> and
    subtracts \<open>Decimal(str(float(amount)))\<close>, the decimal number that Python prints for
    the float.
  The column declarations are in inventory/models.py, which is not among the sources,
  so \<open>stored\<close> is a parameter, one for all decimal columns; a value too large for its column
  makes the write raise and is outside the model.  \<open>float_str\<close> is a parameter as well.
\<close>

record arith =
  ctx :: "rat \<Rightarrow> rat"
  stored :: "rat \<Rightarrow> rat"
  float_str :: "rat \<Rightarrow> rat"

definition exact :: arith where
  "exact = \<lparr>ctx = (\<lambda>x. x), stored = (\<lambda>x. x), float_str = (\<lambda>x. x)\<rparr>"

text \<open>Rounding to the nearest integer, a tie to the even one (\<open>ROUND_HALF_EVEN\<close>).\<close>

definition round_half_even :: "rat \<Rightarrow> int" where
  "round_half_even x =
     (let n = \<lfloor>x\<rfloor>; r = x - of_int n
      in if r < 1 / 2 then n else if 1 / 2 < r then n + 1 else if even n then n else n + 1)"

text \<open>
  \<open>value.quantize(Decimal(1).scaleb(-decimal_places))\<close>, which Django's \<open>format_number\<close>
  applies to a \<open>Decimal\<close> before it goes to the database (create_database.py sets up
  MySQL, whose backend passes the formatted number).
\<close>

definition quantize :: "nat \<Rightarrow> rat \<Rightarrow> rat" where
  "quantize places x = of_int (round_half_even (x * 10 ^ places)) / 10 ^ places"

fun int_digits :: "nat \<Rightarrow> nat" where
  "int_digits n = (if n < 10 then 1 else Suc (int_digits (n div 10)))"

text \<open>
  The position of the leading digit of a number other than zero: \<open>magnitude x = k\<close> when
  \<open>10 ^ (k - 1) \<le> \<bar>x\<bar> < 10 ^ k\<close>.
\<close>

definition magnitude :: "rat \<Rightarrow> int" where
  "magnitude x =
     (if 1 \<le> \<bar>x\<bar> then int (int_digits (nat \<lfloor>\<bar>x\<bar>\<rfloor>))
      else 1 - int (int_digits (nat (\<lceil>1 / \<bar>x\<bar>\<rceil> - 1))))"

text \<open>Rounding to a number of significant digits, as a context of that precision does.\<close>

definition round_sig :: "nat \<Rightarrow> rat \<Rightarrow> rat" where
  "round_sig digits x =
     (if x = 0 then 0
      else let p = int digits - magnitude x
           in of_int (round_half_even (x * 10 powi p)) / 10 powi p)"

text \<open>
  Python's default context has 28 digits; the columns keep \<open>places\<close> decimal places.
\<close>

definition python_decimal :: "nat \<Rightarrow> (rat \<Rightarrow> rat) \<Rightarrow> arith" where
  "python_decimal places repr =
     \<lparr>ctx = round_sig 28, stored = quantize places, float_str = repr\<rparr>"

subsection \<open>Rows as the database keeps them\<close>

definition store_ingredient :: "arith \<Rightarrow> ingredient \<Rightarrow> ingredient" where
  "store_ingredient ar i =
     i\<lparr>current_stock := stored ar (current_stock i), unit_cost := stored ar (unit_cost i)\<rparr>"

definition store_movement :: "arith \<Rightarrow> stock_movement \<Rightarrow> stock_movement" where
  "store_movement ar m =
     m\<lparr>quantity := stored ar (quantity m),
       previous_stock := stored ar (previous_stock m),
       new_stock := stored ar (new_stock m),
       mv_unit_cost := stored ar (mv_unit_cost m),
       total_value := stored ar (total_value m)\<rparr>"

definition store_po_item :: "arith \<Rightarrow> purchase_order_item \<Rightarrow> purchase_order_item" where
  "store_po_item ar x =
     x\<lparr>poi_quantity := stored ar (poi_quantity x),
       received_quantity := stored ar (received_quantity x),
       poi_unit_cost := stored ar (poi_unit_cost x)\<rparr>"

definition save_ingredient_dec :: "arith \<Rightarrow> ingredient \<Rightarrow> db \<Rightarrow> db" where
  "save_ingredient_dec ar i d = save_ingredient (store_ingredient ar i) d"

definition create_movement_dec :: "arith \<Rightarrow> stock_movement \<Rightarrow> db \<Rightarrow> db" where
  "create_movement_dec ar m d = create_movement (store_movement ar m) d"

definition save_po_item_dec :: "arith \<Rightarrow> purchase_order_item \<Rightarrow> db \<Rightarrow> db" where
  "save_po_item_dec ar x d = save_po_item (store_po_item ar x) d"

subsection \<open>The operations with their roundings\<close>

text \<open>
  \<open>deduct_ingredients_for_cake\<close>, line by line as above.  \<open>d_quantity\<close> is the number that
  \<open>Decimal(str(ingredient_quantity))\<close> denotes; it has the sign of the JSON number.  The
  product and the difference are \<open>Decimal\<close> operations; the comparisons are exact.
\<close>

definition deduct_ingredient_dec ::
  "arith \<Rightarrow> cake \<Rightarrow> int \<Rightarrow> order \<Rightarrow> user \<Rightarrow> ingredient_data \<Rightarrow> db \<times> event list
     \<Rightarrow> db \<times> event list" where
  "deduct_ingredient_dec ar ck qty ord system_user idata st =
     (let d = fst st; log = snd st;
          ingredient_name = (case d_name idata of None \<Rightarrow> [] | Some n \<Rightarrow> n);
          ingredient_quantity = (case d_quantity idata of None \<Rightarrow> 0 | Some q \<Rightarrow> q);
          ingredient_unit = (case d_unit idata of None \<Rightarrow> ''kg'' | Some u \<Rightarrow> u)
      in if ingredient_name = [] \<or> ingredient_quantity \<le> 0 then st
         else
           (case filter (\<lambda>i. iexact (ing_name i) ingredient_name) (ingredients d) of
              [] \<Rightarrow> (d, log @ [Ingredient_not_found ingredient_name])
            | i # others \<Rightarrow>
                (let log1 = (if others = [] then log
                             else log @ [Multiple_ingredients ingredient_name]);
                     required = ctx ar (ingredient_quantity * of_int qty);
                     short = (current_stock i < required);
                     log2 = (if short
                             then log1 @ [Insufficient_stock ingredient_name required (current_stock i)]
                             else log1);
                     total_quantity_needed = (if short then current_stock i else required)
                 in if total_quantity_needed > 0 then
                      (let previous = current_stock i;
                           new = max 0 (ctx ar (previous - total_quantity_needed))
                       in (create_movement_dec ar
                             \<lparr>mv_ingredient = ing_id i, mv_type = Out,
                              quantity = total_quantity_needed,
                              previous_stock = previous, new_stock = new,
                              mv_unit_cost = unit_cost i,
                              total_value = ctx ar (total_quantity_needed * unit_cost i),
                              reference = ''ORDER-'' @ order_number ord,
                              mv_notes = ''Automatic deduction for order #'' @ order_number ord
                                      @ '' - '' @ cake_name ck @ '' (x'' @ show_int qty @ '')'',
                              created_by = user_id system_user\<rparr>
                             (save_ingredient_dec ar (i\<lparr>current_stock := new\<rparr>) d),
                           log2 @ [Deducted total_quantity_needed ingredient_unit
                                     ingredient_name (order_number ord)]))
                    else (d, log2))))"

definition deduct_ingredients_for_cake_dec ::
  "arith \<Rightarrow> cake \<Rightarrow> int \<Rightarrow> order \<Rightarrow> user \<Rightarrow> db \<times> event list \<Rightarrow> db \<times> event list" where
  "deduct_ingredients_for_cake_dec ar ck qty ord system_user st =
     (if cake_ingredients ck = [] then (fst st, snd st @ [No_ingredients (cake_name ck)])
      else deduct_entries (deduct_ingredient_dec ar ck qty ord system_user) (cake_name ck)
             (cake_ingredients ck) st)"

definition deduct_order_items_dec ::
  "arith \<Rightarrow> order \<Rightarrow> user \<Rightarrow> order_item list \<Rightarrow> db \<times> event list \<Rightarrow> db \<times> event list" where
  "deduct_order_items_dec ar instance system_user order_items st =
     fold (\<lambda>order_item.
             deduct_ingredients_for_cake_dec ar (oi_cake order_item) (oi_quantity order_item)
               instance system_user)
       order_items st"

definition deduct_ingredients_on_order_confirmation_dec ::
  "arith \<Rightarrow> db \<Rightarrow> order \<Rightarrow> (db \<times> event list) \<times> order" where
  "deduct_ingredients_on_order_confirmation_dec ar d instance =
     (if order_status instance \<in> set [''confirmed'', ''preparing''] then
        if ingredients_deducted instance then ((d, []), instance)
        else
          (case filter (\<lambda>u. user_type u \<in> set [''admin'', ''inventory_manager'']) (users d) of
             [] \<Rightarrow> ((d, [No_system_user]), instance)
           | system_user # _ \<Rightarrow>
               (deduct_order_items_dec ar instance system_user (items instance) (d, []),
                instance\<lparr>ingredients_deducted := True\<rparr>))
      else ((d, []), instance))"

text \<open>
  \<open>deduct_stock\<close>: here \<open>Finite deduction_amount\<close> carries the value of the float.  The two
  guards compare the float; what is subtracted and written is \<open>Decimal(str(float))\<close>.
\<close>

definition deduct_stock_dec ::
  "arith \<Rightarrow> db \<Rightarrow> user \<Rightarrow> nat \<Rightarrow> amount \<Rightarrow> string option \<Rightarrow> string \<Rightarrow> db \<times> response" where
  "deduct_stock_dec ar d u pk amt reason now =
     (case get_object d u pk of
        Inl r \<Rightarrow> (d, r)
      | Inr i \<Rightarrow>
          if \<not> (is_admin u \<or> is_inventory_manager u \<or> is_staff_member u) then (d, Forbidden)
          else
            (case amt of
               Falsy \<Rightarrow> (d, Amount_required)
             | Unparsable \<Rightarrow> (d, Invalid_amount)
             | Overflows \<Rightarrow> (d, Overflow_error)
             | Parsed Neg_inf \<Rightarrow> (d, Must_be_positive)
             | Parsed NaN \<Rightarrow> (d, Invalid_operation)
             | Parsed Pos_inf \<Rightarrow> (d, Insufficient (current_stock i) Pos_inf)
             | Parsed (Finite deduction_amount) \<Rightarrow>
                 if deduction_amount \<le> 0 then (d, Must_be_positive)
                 else if current_stock i < deduction_amount
                 then (d, Insufficient (current_stock i) (Finite deduction_amount))
                 else
                   (let previous = current_stock i;
                        deduction_decimal = float_str ar deduction_amount;
                        new = ctx ar (previous - deduction_decimal)
                    in (create_movement_dec ar
                          \<lparr>mv_ingredient = ing_id i, mv_type = Out,
                           quantity = deduction_decimal,
                           previous_stock = previous, new_stock = new,
                           mv_unit_cost = unit_cost i,
                           total_value = ctx ar (deduction_decimal * unit_cost i),
                           reference = ''MANUAL-'' @ now,
                           mv_notes = ''Manual deduction: ''
                                   @ (case reason of None \<Rightarrow> ''Manual deduction'' | Some r \<Rightarrow> r),
                           created_by = user_id u\<rparr>
                          (save_ingredient_dec ar (i\<lparr>current_stock := new\<rparr>) d),
                        Deducted_ok deduction_amount (ing_unit i) previous new))))"

text \<open>
  Modelled from the spec: the Stock Register \<open>add\<close> of the receipt, as
  \<open>stock_register_add\<close> above, with the sum rounded by the context and the rows rounded by
  their columns.
\<close>

definition stock_register_add_dec ::
  "arith \<Rightarrow> nat \<Rightarrow> rat \<Rightarrow> rat \<Rightarrow> string \<Rightarrow> string \<Rightarrow> nat \<Rightarrow> db \<Rightarrow> db" where
  "stock_register_add_dec ar ing q cost ref note actor d =
     (case find (\<lambda>i. ing_id i = ing) (ingredients d) of
        None \<Rightarrow> d
      | Some i \<Rightarrow>
          (let previous = current_stock i; new = ctx ar (previous + q)
           in create_movement_dec ar
                \<lparr>mv_ingredient = ing_id i, mv_type = In, quantity = q,
                 previous_stock = previous, new_stock = new,
                 mv_unit_cost = cost, total_value = ctx ar (q * cost),
                 reference = ref, mv_notes = note, created_by = actor\<rparr>
                (save_ingredient_dec ar (i\<lparr>current_stock := new, unit_cost := cost\<rparr>) d)))"

definition receive_item_dec ::
  "arith \<Rightarrow> purchase_order \<Rightarrow> user \<Rightarrow> received_item \<Rightarrow> db \<Rightarrow> db" where
  "receive_item_dec ar po u item_data d =
     (case find (\<lambda>x. poi_id x = item_id item_data \<and> poi_purchase_order x = po_id po)
             (po_items d) of
        None \<Rightarrow> d
      | Some po_item \<Rightarrow>
          (let d1 = save_po_item_dec ar
                      (po_item\<lparr>received_quantity := ri_received_quantity item_data\<rparr>) d
           in if ri_received_quantity item_data > 0
              then stock_register_add_dec ar (poi_ingredient po_item)
                     (ri_received_quantity item_data)
                     (poi_unit_cost po_item) (''PO #'' @ po_number po)
                     ''Received from purchase order'' (user_id u) d1
              else d1))"

definition receive_items_dec ::
  "arith \<Rightarrow> db \<Rightarrow> purchase_order \<Rightarrow> user \<Rightarrow> received_item list \<Rightarrow> string
     \<Rightarrow> db \<times> purchase_order" where
  "receive_items_dec ar d po u received today =
     (let d' = fold (receive_item_dec ar po u) received d
      in (d', if all_received d' po
              then po\<lparr>po_status := ''received'', delivery_date := Some today\<rparr>
              else po))"

fun apply_operation_dec :: "arith \<Rightarrow> operation \<Rightarrow> db \<Rightarrow> db" where
  "apply_operation_dec ar (Order_saved ord) d =
     fst (fst (deduct_ingredients_on_order_confirmation_dec ar d ord))"
| "apply_operation_dec ar (Manual_deduct u pk amt reason now) d =
     fst (deduct_stock_dec ar d u pk amt reason now)"
| "apply_operation_dec ar (Receive po u received today) d =
     fst (receive_items_dec ar d po u received today)"

definition run_dec :: "arith \<Rightarrow> operation list \<Rightarrow> db \<Rightarrow> db" where
  "run_dec ar ops d = fold (apply_operation_dec ar) ops d"

section \<open>Properties of the stock register and the movement ledger\<close>

definition nonneg_stock :: "db \<Rightarrow> bool" where
  "nonneg_stock d = list_all (\<lambda>i. 0 \<le> current_stock i) (ingredients d)"

definition signed :: "movement_type \<Rightarrow> rat \<Rightarrow> rat" where
  "signed k q = (case k of In \<Rightarrow> q | Out \<Rightarrow> - q)"

definition balanced :: "stock_movement \<Rightarrow> bool" where
  "balanced m = (new_stock m = previous_stock m + signed (mv_type m) (quantity m))"

fun chained :: "stock_movement list \<Rightarrow> bool" where
  "chained (m # m' # ms) = (new_stock m = previous_stock m' \<and> chained (m' # ms))"
| "chained _ = True"

text \<open>The movements of one ingredient, in creation order.\<close>

definition ledger :: "db \<Rightarrow> nat \<Rightarrow> stock_movement list" where
  "ledger d i = filter (\<lambda>m. mv_ingredient m = i) (movements d)"

text \<open>
  The state the ledger is in when nothing but the three operations has written to it:
  primary keys are unique, every movement belongs to a row of the ingredient table, every
  balance is a value as its column keeps it, the movements of each ingredient chain, and
  the last of them ends at the ingredient's balance.
\<close>

definition ledger_stored :: "arith \<Rightarrow> db \<Rightarrow> bool" where
  "ledger_stored ar d =
     (distinct (map ing_id (ingredients d))
      \<and> list_all (\<lambda>m. mv_ingredient m \<in> set (map ing_id (ingredients d))) (movements d)
      \<and> list_all (\<lambda>i. stored ar (current_stock i) = current_stock i
                       \<and> chained (ledger d (ing_id i))
                       \<and> (if ledger d (ing_id i) = [] then True
                          else new_stock (last (ledger d (ing_id i))) = current_stock i))
           (ingredients d))"

text \<open>A number that neither the context nor the column rounds.\<close>

definition unrounded :: "arith \<Rightarrow> rat \<Rightarrow> bool" where
  "unrounded ar x = (ctx ar x = x \<and> stored ar x = x)"

definition is_success :: "response \<Rightarrow> bool" where
  "is_success r = (case r of Deducted_ok a un p n \<Rightarrow> True | _ \<Rightarrow> False)"

section \<open>Example data\<close>

definition flour :: ingredient where
  "flour = \<lparr>ing_id = 1, ing_name = ''Flour'', ing_unit = ''kg'', current_stock = 10,
            unit_cost = 2\<rparr>"

definition admin_user :: user where
  "admin_user = \<lparr>user_id = 7, user_type = ''admin'', is_admin = True,
                 is_inventory_manager = False, is_staff_member = False\<rparr>"

definition flour_po_item :: purchase_order_item where
  "flour_po_item = \<lparr>poi_id = 1, poi_purchase_order = 1, poi_ingredient = 1,
                    poi_quantity = 50, received_quantity = 0, poi_unit_cost = 3\<rparr>"

definition flour_po :: purchase_order where
  "flour_po = \<lparr>po_id = 1, po_number = ''PO-001'', po_status = ''confirmed'',
               delivery_date = None\<rparr>"

definition flour_db :: db where
  "flour_db = \<lparr>ingredients = [flour], movements = [], users = [admin_user],
               po_items = [flour_po_item]\<rparr>"

definition flour_line :: ingredient_data where
  "flour_line = \<lparr>d_name = Some ''flour'', d_quantity = Some 6, d_unit = Some ''kg''\<rparr>"

definition bread :: cake where
  "bread = \<lparr>cake_name = ''Bread'', cake_ingredients = [Line flour_line]\<rparr>"

definition order_a1 :: order where
  "order_a1 = \<lparr>order_number = ''A1'', order_status = ''confirmed'',
               items = [\<lparr>oi_cake = bread, oi_quantity = 2\<rparr>],
               ingredients_deducted = False\<rparr>"

definition scone_line :: ingredient_data where
  "scone_line = \<lparr>d_name = Some ''FLOUR'', d_quantity = Some 3, d_unit = None\<rparr>"

definition scone :: cake where
  "scone = \<lparr>cake_name = ''Scone'', cake_ingredients = [Line scone_line]\<rparr>"

text \<open>Order B2 as a query returns it: confirmed, one scone, no Python attribute set.\<close>

definition order_b2 :: order where
  "order_b2 = \<lparr>order_number = ''B2'', order_status = ''confirmed'',
               items = [\<lparr>oi_cake = scone, oi_quantity = 1\<rparr>],
               ingredients_deducted = False\<rparr>"





text \<open>
  What Python prints for the floats of the examples: \<open>0.1\<close> for the float nearest to one
  tenth, and the number itself for floats such as \<open>4.0\<close> and \<open>12.0\<close>.
\<close>

definition example_repr :: "rat \<Rightarrow> rat" where
  "example_repr x = (if x = 3602879701896397 / 36028797018963968 then 1 / 10 else x)"

text \<open>Columns of two decimal places.\<close>

definition two_places :: arith where
  "two_places = python_decimal 2 example_repr"

definition vanilla :: ingredient where
  "vanilla = \<lparr>ing_id = 2, ing_name = ''Vanilla'', ing_unit = ''kg'', current_stock = 1001 / 100,
              unit_cost = 40\<rparr>"

definition pantry_db :: db where
  "pantry_db = \<lparr>ingredients = [flour, vanilla], movements = [], users = [admin_user],
                po_items = [flour_po_item]\<rparr>"

definition vanilla_line :: ingredient_data where
  "vanilla_line = \<lparr>d_name = Some ''vanilla'', d_quantity = Some (5 / 1000), d_unit = Some ''kg''\<rparr>"

definition custard :: cake where
  "custard = \<lparr>cake_name = ''Custard'', cake_ingredients = [Line vanilla_line]\<rparr>"

definition order_c3 :: order where
  "order_c3 = \<lparr>order_number = ''C3'', order_status = ''preparing'',
               items = [\<lparr>oi_cake = custard, oi_quantity = 1\<rparr>],
               ingredients_deducted = False\<rparr>"

definition receipt_10 :: received_item where
  "receipt_10 = \<lparr>item_id = 1, ri_received_quantity = 10\<rparr>"

definition receipt_50 :: received_item where
  "receipt_50 = \<lparr>item_id = 1, ri_received_quantity = 50\<rparr>"

definition chocolate_cake :: recipe where
  "chocolate_cake =
     \<lparr>recipe_name = ''Chocolate Cake'',
      recipe_ingredients =
        [\<lparr>ri_ingredient = \<lparr>ing_id = 1, ing_name = ''Flour'', ing_unit = ''kg'',
                            current_stock = 3 / 2, unit_cost = 2\<rparr>,
          ri_quantity = 1 / 2\<rparr>,
         \<lparr>ri_ingredient = \<lparr>ing_id = 2, ing_name = ''Eggs'', ing_unit = ''pcs'',
                            current_stock = 20, unit_cost = 1 / 4\<rparr>,
          ri_quantity = 3\<rparr>]\<rparr>"

section \<open>Deduction beyond the current stock\<close>

lemma deduct_ingredient_short:
  assumes "d_name idata = Some n" and "n \<noteq> []" and "d_quantity idata = Some q" and "0 < q"
    and "filter (\<lambda>i. iexact (ing_name i) n) (ingredients d) = i # others"
    and "current_stock i < q * of_int qty" and "0 < current_stock i"
  shows "deduct_ingredient ck qty ord su idata (d, evs) =
     (create_movement
        \<lparr>mv_ingredient = ing_id i, mv_type = Out, quantity = current_stock i,
         previous_stock = current_stock i, new_stock = 0,
         mv_unit_cost = unit_cost i, total_value = current_stock i * unit_cost i,
         reference = ''ORDER-'' @ order_number ord,
         mv_notes = ''Automatic deduction for order #'' @ order_number ord
                    @ '' - '' @ cake_name ck @ '' (x'' @ show_int qty @ '')'',
         created_by = user_id su\<rparr>
        (save_ingredient (i\<lparr>current_stock := 0\<rparr>) d),
      (if others = [] then evs else evs @ [Multiple_ingredients n])
      @ [Insufficient_stock n (q * of_int qty) (current_stock i),
         Deducted (current_stock i) (case d_unit idata of None \<Rightarrow> ''kg'' | Some un \<Rightarrow> un) n
           (order_number ord)])"
  using assms by (simp add: deduct_ingredient_def Let_def)

lemma deduct_ingredient_short_empty:
  assumes "d_name idata = Some n" and "n \<noteq> []" and "d_quantity idata = Some q" and "0 < q"
    and "filter (\<lambda>i. iexact (ing_name i) n) (ingredients d) = i # others"
    and "current_stock i < q * of_int qty" and "\<not> 0 < current_stock i"
  shows "deduct_ingredient ck qty ord su idata (d, evs) =
     (d, (if others = [] then evs else evs @ [Multiple_ingredients n])
         @ [Insufficient_stock n (q * of_int qty) (current_stock i)])"
  using assms by (simp add: deduct_ingredient_def Let_def)

lemma deduct_stock_short:
  assumes "get_object d u pk = Inr i" and "0 < a" and "current_stock i < a"
  shows "deduct_stock d u pk (Parsed (Finite a)) reason now =
           (d, Insufficient (current_stock i) (Finite a))"
  using assms
  by (auto simp add: deduct_stock_def get_object_def may_use_ingredients_def
      split: if_splits option.splits)

text \<open>
  C1, as stated, fails on the manual endpoint: \<open>deduct_stock\<close> asked for 12 of a balance of
  10 answers "Insufficient stock", leaves the balance at 10 and writes no movement.
\<close>

theorem manual_deduction_beyond_stock_rejected:
  "deduct_stock flour_db admin_user 1 (Parsed (Finite 12)) None ''20250101120000'' =
     (flour_db, Insufficient 10 (Finite 12))
   \<and> map current_stock (ingredients flour_db) = [10] \<and> movements flour_db = []"
  by code_simp

text \<open>
  C1 (amended): in the automatic order deduction, a recipe line whose ingredient resolves
  and whose required quantity exceeds the ingredient's positive current stock is clamped
  to that stock: the balance is written as 0, one 'out' movement of the applied amount
  (the former balance) is appended, and a warning with the required and the available
  quantity is logged before the applied amount is reported; the step returns normally.
  When the current stock is not positive, only the warning is logged and nothing is
  written.  The manual endpoint asked for a positive amount above the balance rejects
  the request with the available and the requested amount, and changes nothing.
\<close>

theorem deduction_beyond_stock:
  "(d_name idata = Some n \<and> n \<noteq> [] \<and> d_quantity idata = Some q \<and> 0 < q
      \<and> filter (\<lambda>i. iexact (ing_name i) n) (ingredients d) = i # others
      \<and> current_stock i < q * of_int qty \<and> 0 < current_stock i
    \<longrightarrow> deduct_ingredient ck qty ord su idata (d, evs) =
         (create_movement
            \<lparr>mv_ingredient = ing_id i, mv_type = Out, quantity = current_stock i,
             previous_stock = current_stock i, new_stock = 0,
             mv_unit_cost = unit_cost i, total_value = current_stock i * unit_cost i,
             reference = ''ORDER-'' @ order_number ord,
             mv_notes = ''Automatic deduction for order #'' @ order_number ord
                        @ '' - '' @ cake_name ck @ '' (x'' @ show_int qty @ '')'',
             created_by = user_id su\<rparr>
            (save_ingredient (i\<lparr>current_stock := 0\<rparr>) d),
          (if others = [] then evs else evs @ [Multiple_ingredients n])
          @ [Insufficient_stock n (q * of_int qty) (current_stock i),
             Deducted (current_stock i) (case d_unit idata of None \<Rightarrow> ''kg'' | Some un \<Rightarrow> un) n
               (order_number ord)]))
   \<and> (d_name idata = Some n \<and> n \<noteq> [] \<and> d_quantity idata = Some q \<and> 0 < q
      \<and> filter (\<lambda>i. iexact (ing_name i) n) (ingredients d) = i # others
      \<and> current_stock i < q * of_int qty \<and> \<not> 0 < current_stock i
    \<longrightarrow> deduct_ingredient ck qty ord su idata (d, evs) =
         (d, (if others = [] then evs else evs @ [Multiple_ingredients n])
             @ [Insufficient_stock n (q * of_int qty) (current_stock i)]))
   \<and> (get_object d u pk = Inr j \<and> 0 < a \<and> current_stock j < a
    \<longrightarrow> deduct_stock d u pk (Parsed (Finite a)) reason now =
          (d, Insufficient (current_stock j) (Finite a)))"
  using deduct_ingredient_short [of idata n q d i others qty ck ord su evs]
    deduct_ingredient_short_empty [of idata n q d i others qty ck ord su evs]
    deduct_stock_short [of d u pk j a reason now]
  by blast

text \<open>
  The scenario of the spec on both paths: 12 kg asked of 10 kg of flour.  The order
  deduction applies 10, leaves 0 and warns "required 12, available 10"; the manual
  deduction is refused.
\<close>

theorem deduction_beyond_stock_witness:
  "deduct_ingredient bread 2 order_a1 admin_user flour_line (flour_db, []) =
     (create_movement
        \<lparr>mv_ingredient = 1, mv_type = Out, quantity = 10,
         previous_stock = 10, new_stock = 0, mv_unit_cost = 2, total_value = 20,
         reference = ''ORDER-A1'',
         mv_notes = ''Automatic deduction for order #A1 - Bread (x2)'',
         created_by = 7\<rparr>
        (save_ingredient (flour\<lparr>current_stock := 0\<rparr>) flour_db),
      [Insufficient_stock ''flour'' 12 10, Deducted 10 ''kg'' ''flour'' ''A1''])
   \<and> deduct_stock flour_db admin_user 1 (Parsed (Finite 12)) None ''20250101120000'' =
       (flour_db, Insufficient 10 (Finite 12))"
proof -
  have f: "filter (\<lambda>i. iexact (ing_name i) ''flour'') (ingredients flour_db) = flour # []"
    by code_simp
  have g: "get_object flour_db admin_user 1 = Inr flour"
    by code_simp
  have s: "show_int 2 = ''2''"
    by code_simp
  have h1: "d_name flour_line = Some ''flour'' \<and> ''flour'' \<noteq> []
      \<and> d_quantity flour_line = Some 6 \<and> (0::rat) < 6
      \<and> filter (\<lambda>i. iexact (ing_name i) ''flour'') (ingredients flour_db) = flour # []
      \<and> current_stock flour < 6 * of_int 2 \<and> 0 < current_stock flour"
    using f by (simp add: flour_line_def flour_def)
  have h2: "get_object flour_db admin_user 1 = Inr flour \<and> (0::rat) < 12
      \<and> current_stock flour < 12"
    using g by (simp add: flour_def)
  show ?thesis
    using deduction_beyond_stock [of flour_line "''flour''" 6 flour_db flour "[]" 2 bread
        order_a1 admin_user "[]" admin_user 1 flour 12 None "''20250101120000''"] h1 h2 s
    by (simp add: flour_def flour_line_def order_a1_def bread_def admin_user_def)
qed

section \<open>Rejected manual deductions\<close>

lemma deduct_stock_rejected_unchanged:
  "\<not> is_success (snd (deduct_stock d u pk amt reason now))
     \<Longrightarrow> fst (deduct_stock d u pk amt reason now) = d"
  by (auto simp add: deduct_stock_def is_success_def Let_def
      split: sum.splits amount.splits pyfloat.splits if_splits)

lemma deduct_stock_rejects:
  "amt = Falsy \<or> amt = Unparsable \<or> amt = Parsed Neg_inf \<or> amt = Parsed Pos_inf
     \<or> amt = Parsed NaN
     \<or> (\<exists>a. amt = Parsed (Finite a)
            \<and> (a \<le> 0 \<or> (\<exists>i. get_object d u pk = Inr i \<and> current_stock i < a)))
   \<Longrightarrow> \<not> is_success (snd (deduct_stock d u pk amt reason now))"
  by (auto simp add: deduct_stock_def is_success_def Let_def get_object_def
      split: sum.splits amount.splits pyfloat.splits if_splits option.splits)

text \<open>
  C10: whenever \<open>deduct_stock\<close> answers anything but success, the database it leaves is the
  database it was given: no balance has changed and no movement has been appended.  A
  missing or zero amount (falsy), a non-numeric one, a negative or zero number, an
  infinity or NaN, and a number above the ingredient's current stock are all answered
  with a rejection.
\<close>

theorem rejected_deduction_changes_nothing:
  "(\<not> is_success (snd (deduct_stock d u pk amt reason now))
      \<longrightarrow> fst (deduct_stock d u pk amt reason now) = d)
   \<and> (amt = Falsy \<or> amt = Unparsable \<or> amt = Parsed Neg_inf \<or> amt = Parsed Pos_inf
        \<or> amt = Parsed NaN
        \<or> (\<exists>a. amt = Parsed (Finite a)
               \<and> (a \<le> 0 \<or> (\<exists>i. get_object d u pk = Inr i \<and> current_stock i < a)))
      \<longrightarrow> \<not> is_success (snd (deduct_stock d u pk amt reason now)))"
  using deduct_stock_rejected_unchanged deduct_stock_rejects by blast

theorem rejected_deduction_changes_nothing_witness:
  "\<not> is_success (snd (deduct_stock flour_db admin_user 1 (Parsed (Finite 12)) None
                        ''20250101120000''))
   \<and> fst (deduct_stock flour_db admin_user 1 (Parsed (Finite 12)) None ''20250101120000'')
       = flour_db
   \<and> fst (deduct_stock flour_db admin_user 1 Falsy None ''20250101120000'') = flour_db"
proof -
  have g: "get_object flour_db admin_user 1 = Inr flour"
    by code_simp
  have s: "current_stock flour < 12"
    by (simp add: flour_def)
  have h: "\<exists>a. Parsed (Finite 12) = Parsed (Finite a)
             \<and> (a \<le> 0 \<or> (\<exists>i. get_object flour_db admin_user 1 = Inr i \<and> current_stock i < a))"
    using g s by blast
  show ?thesis
    using h
      rejected_deduction_changes_nothing
        [of flour_db admin_user 1 "Parsed (Finite 12)" None "''20250101120000''"]
      rejected_deduction_changes_nothing
        [of flour_db admin_user 1 Falsy None "''20250101120000''"]
    by blast
qed

section \<open>Availability check\<close>

lemma concat_map_if:
  "concat (map (\<lambda>x. if P x then [f x] else []) xs) = map f (filter P xs)"
  by (induction xs) simp_all

lemma check_availability_list:
  "av_unavailable_ingredients (check_availability r (Some servings)) =
     map (\<lambda>ri. \<lparr>un_ingredient = ing_name (ri_ingredient ri),
                 un_required = ri_quantity ri * of_int servings,
                 un_available = current_stock (ri_ingredient ri),
                 un_shortage = ri_quantity ri * of_int servings
                               - current_stock (ri_ingredient ri)\<rparr>)
       (filter (\<lambda>ri. current_stock (ri_ingredient ri) < ri_quantity ri * of_int servings)
          (recipe_ingredients r))"
  by (simp add: check_availability_def Let_def concat_map_if)

lemma check_availability_flag:
  "av_available (check_availability r (Some servings)) =
      (\<forall>ri \<in> set (recipe_ingredients r).
          \<not> current_stock (ri_ingredient ri) < ri_quantity ri * of_int servings)"
  by (auto simp add: check_availability_def Let_def)

text \<open>
  C8: for a recipe and a servings count, \<open>available\<close> is true exactly when no recipe
  ingredient's required quantity (its per-serving quantity times the servings) exceeds
  the ingredient's current stock; the report lists exactly the insufficient ingredients,
  in recipe order, each with its required quantity, the available stock and the shortage
  \<open>required - available\<close>.
\<close>

theorem availability_check:
  "av_available (check_availability r (Some servings)) =
      (\<forall>ri \<in> set (recipe_ingredients r).
          \<not> current_stock (ri_ingredient ri) < ri_quantity ri * of_int servings)
   \<and> av_unavailable_ingredients (check_availability r (Some servings)) =
       map (\<lambda>ri. \<lparr>un_ingredient = ing_name (ri_ingredient ri),
                   un_required = ri_quantity ri * of_int servings,
                   un_available = current_stock (ri_ingredient ri),
                   un_shortage = ri_quantity ri * of_int servings
                                 - current_stock (ri_ingredient ri)\<rparr>)
         (filter (\<lambda>ri. current_stock (ri_ingredient ri) < ri_quantity ri * of_int servings)
            (recipe_ingredients r))
   \<and> (\<forall>e \<in> set (av_unavailable_ingredients (check_availability r (Some servings))).
         un_shortage e = un_required e - un_available e \<and> un_available e < un_required e)"
  using check_availability_flag [of r servings]
  by (auto simp add: check_availability_list)

text \<open>
  The scenario of the spec: 0.5 kg of flour and 3 eggs per serving, 4 servings, 1.5 kg of
  flour and 20 eggs in stock: not available, flour required 2, available 1.5, short 0.5.
\<close>

theorem availability_check_witness:
  "av_available (check_availability chocolate_cake (Some 4)) = False
   \<and> av_unavailable_ingredients (check_availability chocolate_cake (Some 4)) =
       [\<lparr>un_ingredient = ''Flour'', un_required = 2, un_available = 3 / 2,
         un_shortage = 1 / 2\<rparr>]"
  using availability_check [of chocolate_cake 4]
  by (simp add: chocolate_cake_def)

section \<open>Purchase-order status after a receipt\<close>

lemma all_received_iff:
  "all_received d po =
     (\<forall>item \<in> set (po_items d). poi_purchase_order item = po_id po
          \<longrightarrow> poi_quantity item \<le> received_quantity item)"
  by (auto simp add: all_received_def list_all_iff)

text \<open>
  C7: after \<open>receive_items\<close> has applied the lines, if every line item of the purchase
  order has a received quantity of at least its ordered quantity, the status is
  'received'; if some line is short, the purchase order is left as it was.  So for a
  purchase order that was not yet 'received', the status after the receipt is
  'received' exactly when every line is covered.
\<close>

theorem receipt_status:
  "((\<forall>item \<in> set (po_items (fst (receive_items d po u received today))).
        poi_purchase_order item = po_id po \<longrightarrow> poi_quantity item \<le> received_quantity item)
      \<longrightarrow> po_status (snd (receive_items d po u received today)) = ''received'')
   \<and> (\<not> (\<forall>item \<in> set (po_items (fst (receive_items d po u received today))).
        poi_purchase_order item = po_id po \<longrightarrow> poi_quantity item \<le> received_quantity item)
      \<longrightarrow> snd (receive_items d po u received today) = po)
   \<and> (po_status po \<noteq> ''received''
      \<longrightarrow> (po_status (snd (receive_items d po u received today)) = ''received'')
          = (\<forall>item \<in> set (po_items (fst (receive_items d po u received today))).
               poi_purchase_order item = po_id po
                 \<longrightarrow> poi_quantity item \<le> received_quantity item))"
proof (cases "all_received (fold (receive_item po u) received d) po")
  case True
  then show ?thesis
    by (simp add: receive_items_def Let_def all_received_iff [symmetric])
next
  case False
  then show ?thesis
    by (simp add: receive_items_def Let_def all_received_iff [symmetric])
qed

theorem receipt_status_witness:
  "snd (receive_items flour_db flour_po admin_user [receipt_10] ''2025-01-01'') = flour_po
   \<and> po_status (snd (receive_items flour_db flour_po admin_user [receipt_50] ''2025-01-01''))
       = ''received''
   \<and> po_status flour_po \<noteq> ''received''"
proof -
  have a: "po_items (fst (receive_items flour_db flour_po admin_user [receipt_10] ''2025-01-01''))
             = [flour_po_item\<lparr>received_quantity := 10\<rparr>]"
    by code_simp
  have b: "po_items (fst (receive_items flour_db flour_po admin_user [receipt_50] ''2025-01-01''))
             = [flour_po_item\<lparr>received_quantity := 50\<rparr>]"
    by code_simp
  have c: "po_status flour_po \<noteq> ''received''"
    by (simp add: flour_po_def)
  have "\<not> (\<forall>item \<in> set (po_items (fst (receive_items flour_db flour_po admin_user
                                           [receipt_10] ''2025-01-01''))).
        poi_purchase_order item = po_id flour_po
          \<longrightarrow> poi_quantity item \<le> received_quantity item)"
    unfolding a by (simp add: flour_po_item_def flour_po_def)
  moreover have "\<forall>item \<in> set (po_items (fst (receive_items flour_db flour_po admin_user
                                           [receipt_50] ''2025-01-01''))).
        poi_purchase_order item = po_id flour_po
          \<longrightarrow> poi_quantity item \<le> received_quantity item"
    unfolding b by (simp add: flour_po_item_def flour_po_def)
  ultimately show ?thesis
    using receipt_status [of flour_db flour_po admin_user "[receipt_10]" "''2025-01-01''"]
      receipt_status [of flour_db flour_po admin_user "[receipt_50]" "''2025-01-01''"] c
    by blast
qed

section \<open>Receiving a purchase-order line\<close>

lemma find_map_replace:
  "find (\<lambda>r. key r = k) xs = Some x0 \<Longrightarrow> key x = k \<Longrightarrow>
   find (\<lambda>r. key r = k) (map (\<lambda>r. if key r = k then x else r) xs) = Some x"
  by (induction xs) (auto split: if_splits)

lemma find_Some_holds: "find P xs = Some x \<Longrightarrow> P x"
  by (induction xs) (auto split: if_splits)

lemma stock_register_add_found:
  assumes "find (\<lambda>i. ing_id i = ing) (ingredients d) = Some i"
  shows "find (\<lambda>i. ing_id i = ing) (ingredients (stock_register_add ing q cost ref note actor d))
           = Some (i\<lparr>current_stock := current_stock i + q, unit_cost := cost\<rparr>)"
    and "movements (stock_register_add ing q cost ref note actor d) =
           movements d @
           [\<lparr>mv_ingredient = ing, mv_type = In, quantity = q,
             previous_stock = current_stock i, new_stock = current_stock i + q,
             mv_unit_cost = cost, total_value = q * cost,
             reference = ref, mv_notes = note, created_by = actor\<rparr>]"
    and "po_items (stock_register_add ing q cost ref note actor d) = po_items d"
proof -
  have k: "ing_id i = ing"
    using assms find_Some_holds by fastforce
  show "find (\<lambda>i. ing_id i = ing) (ingredients (stock_register_add ing q cost ref note actor d))
           = Some (i\<lparr>current_stock := current_stock i + q, unit_cost := cost\<rparr>)"
    using assms k
    by (simp add: stock_register_add_def Let_def create_movement_def save_ingredient_def
        find_map_replace)
  show "movements (stock_register_add ing q cost ref note actor d) =
           movements d @
           [\<lparr>mv_ingredient = ing, mv_type = In, quantity = q,
             previous_stock = current_stock i, new_stock = current_stock i + q,
             mv_unit_cost = cost, total_value = q * cost,
             reference = ref, mv_notes = note, created_by = actor\<rparr>]"
    using assms k
    by (simp add: stock_register_add_def Let_def create_movement_def save_ingredient_def)
  show "po_items (stock_register_add ing q cost ref note actor d) = po_items d"
    using assms
    by (simp add: stock_register_add_def Let_def create_movement_def save_ingredient_def)
qed

lemma save_po_item_fields [simp]:
  "ingredients (save_po_item x d) = ingredients d"
  "movements (save_po_item x d) = movements d"
  by (simp_all add: save_po_item_def)

lemma receive_item_found:
  assumes "find (\<lambda>x. poi_id x = item_id item_data \<and> poi_purchase_order x = po_id po) (po_items d)
             = Some po_item"
    and "0 < ri_received_quantity item_data"
  shows "receive_item po u item_data d =
           stock_register_add (poi_ingredient po_item) (ri_received_quantity item_data)
             (poi_unit_cost po_item) (''PO #'' @ po_number po) ''Received from purchase order''
             (user_id u)
             (save_po_item (po_item\<lparr>received_quantity := ri_received_quantity item_data\<rparr>) d)"
  using assms by (simp add: receive_item_def Let_def)

text \<open>
  C5: a receipt line with a received quantity above zero, for a line item of the purchase
  order whose ingredient is a row of the ingredient table, goes through the Stock Register
  \<open>add\<close>: the ingredient's balance grows by the received quantity, its unit cost becomes
  the line's unit cost, and one 'in' movement is appended whose reference is
  \<open>PO #\<close> followed by the purchase order's number.
\<close>

theorem receipt_line_adds_stock:
  "find (\<lambda>x. poi_id x = item_id item_data \<and> poi_purchase_order x = po_id po) (po_items d)
      = Some po_item
   \<and> 0 < ri_received_quantity item_data
   \<and> find (\<lambda>i. ing_id i = poi_ingredient po_item) (ingredients d) = Some i
   \<longrightarrow>
     find (\<lambda>i. ing_id i = poi_ingredient po_item) (ingredients (receive_item po u item_data d))
       = Some (i\<lparr>current_stock := current_stock i + ri_received_quantity item_data,
                  unit_cost := poi_unit_cost po_item\<rparr>)
     \<and> movements (receive_item po u item_data d) =
         movements d @
         [\<lparr>mv_ingredient = poi_ingredient po_item, mv_type = In,
           quantity = ri_received_quantity item_data,
           previous_stock = current_stock i,
           new_stock = current_stock i + ri_received_quantity item_data,
           mv_unit_cost = poi_unit_cost po_item,
           total_value = ri_received_quantity item_data * poi_unit_cost po_item,
           reference = ''PO #'' @ po_number po,
           mv_notes = ''Received from purchase order'',
           created_by = user_id u\<rparr>]"
  by (simp add: receive_item_found stock_register_add_found)

theorem receipt_line_adds_stock_witness:
  "find (\<lambda>i. ing_id i = 1) (ingredients (receive_item flour_po admin_user receipt_10 flour_db))
       = Some (flour\<lparr>current_stock := 20, unit_cost := 3\<rparr>)
     \<and> movements (receive_item flour_po admin_user receipt_10 flour_db) =
         [\<lparr>mv_ingredient = 1, mv_type = In, quantity = 10,
           previous_stock = 10, new_stock = 20, mv_unit_cost = 3, total_value = 30,
           reference = ''PO #PO-001'', mv_notes = ''Received from purchase order'',
           created_by = 7\<rparr>]"
proof -
  have a: "find (\<lambda>x. poi_id x = item_id receipt_10 \<and> poi_purchase_order x = po_id flour_po)
             (po_items flour_db) = Some flour_po_item"
    by code_simp
  have b: "find (\<lambda>i. ing_id i = poi_ingredient flour_po_item) (ingredients flour_db) = Some flour"
    by code_simp
  have c: "0 < ri_received_quantity receipt_10"
    by (simp add: receipt_10_def)
  show ?thesis
    using receipt_line_adds_stock [of receipt_10 flour_po flour_db flour_po_item flour admin_user]
      a b c
    by (simp add: flour_def flour_po_item_def receipt_10_def flour_po_def admin_user_def
        flour_db_def)
qed

section \<open>Saving a confirmed order twice\<close>

text \<open>
  C2: the marker that stops a second deduction is an attribute of the Python instance.
  Order B2, confirmed, is saved through two instances loaded from the database (as two
  requests or two processes do): both saves deduct, and the ledger holds two sets of
  movements for the one order.
\<close>

theorem fresh_instance_deducts_again:
  "movements (fst (fst (deduct_ingredients_on_order_confirmation
       (fst (fst (deduct_ingredients_on_order_confirmation flour_db order_b2))) order_b2)))
   = [\<lparr>mv_ingredient = 1, mv_type = Out, quantity = 3, previous_stock = 10, new_stock = 7,
       mv_unit_cost = 2, total_value = 6, reference = ''ORDER-B2'',
       mv_notes = ''Automatic deduction for order #B2 - Scone (x1)'', created_by = 7\<rparr>,
      \<lparr>mv_ingredient = 1, mv_type = Out, quantity = 3, previous_stock = 7, new_stock = 4,
       mv_unit_cost = 2, total_value = 6, reference = ''ORDER-B2'',
       mv_notes = ''Automatic deduction for order #B2 - Scone (x1)'', created_by = 7\<rparr>]"
  by code_simp

text \<open>Saving the very instance that was processed again does nothing.\<close>

lemma same_instance_resave:
  "ingredients_deducted instance \<Longrightarrow>
   deduct_ingredients_on_order_confirmation d instance = ((d, []), instance)"
  by (simp add: deduct_ingredients_on_order_confirmation_def)

section \<open>Lines that are skipped\<close>




text \<open>Entries that raise nothing are passed one after the other.\<close>

lemma deduct_entries_lines:
  "deduct_entries body name (map Line lines @ entries) st =
     deduct_entries body name entries (fold body lines st)"
  by (induction lines arbitrary: st) simp_all











text \<open>
  An entry on which the body raises ends the cake's loop: the entries after it are not
  processed, and the next order item is.
\<close>

lemma raising_entry_abandons_the_cake:
  "cake_ingredients ck = map Line before @ Raises # after \<Longrightarrow>
   deduct_ingredients_for_cake ck qty ord su st =
     (fst (fold (deduct_ingredient ck qty ord su) before st),
      snd (fold (deduct_ingredient ck qty ord su) before st) @ [Error_deducting (cake_name ck)])"
  by (simp add: deduct_ingredients_for_cake_def deduct_entries_lines)

section \<open>The balance never goes below zero\<close>

lemma nonneg_stock_save_ingredient:
  "nonneg_stock d \<Longrightarrow> 0 \<le> current_stock i \<Longrightarrow> nonneg_stock (save_ingredient i d)"
  by (auto simp add: nonneg_stock_def save_ingredient_def list_all_iff)

lemma nonneg_stock_create_movement [simp]:
  "nonneg_stock (create_movement m d) = nonneg_stock d"
  by (simp add: nonneg_stock_def create_movement_def)

lemma nonneg_stock_save_po_item [simp]:
  "nonneg_stock (save_po_item x d) = nonneg_stock d"
  by (simp add: nonneg_stock_def save_po_item_def)

lemma find_Some_member: "find P xs = Some x \<Longrightarrow> x \<in> set xs"
  by (induction xs) (auto split: if_splits)

lemma nonneg_stock_deduct_ingredient:
  "nonneg_stock (fst st) \<Longrightarrow> nonneg_stock (fst (deduct_ingredient ck qty ord su idata st))"
  unfolding deduct_ingredient_def Let_def
  by (auto simp add: nonneg_stock_save_ingredient split: list.splits)

lemma nonneg_stock_deduct_ingredients_for_cake:
  "nonneg_stock (fst st) \<Longrightarrow> nonneg_stock (fst (deduct_ingredients_for_cake ck qty ord su st))"
proof -
  have "nonneg_stock (fst st) \<Longrightarrow>
        nonneg_stock (fst (deduct_entries (deduct_ingredient ck qty ord su) name entries st))"
    for name entries
    by (induction "deduct_ingredient ck qty ord su" name entries st rule: deduct_entries.induct)
      (simp_all add: nonneg_stock_deduct_ingredient)
  then show "nonneg_stock (fst st) \<Longrightarrow> ?thesis"
    by (simp add: deduct_ingredients_for_cake_def)
qed

lemma nonneg_stock_deduct_order_items:
  "nonneg_stock (fst st) \<Longrightarrow> nonneg_stock (fst (deduct_order_items ord su order_items st))"
  unfolding deduct_order_items_def
  by (induction order_items arbitrary: st)
    (simp_all add: nonneg_stock_deduct_ingredients_for_cake)

lemma nonneg_stock_order_saved:
  "nonneg_stock d \<Longrightarrow>
   nonneg_stock (fst (fst (deduct_ingredients_on_order_confirmation d instance)))"
  by (simp add: deduct_ingredients_on_order_confirmation_def nonneg_stock_deduct_order_items
      split: list.splits)

lemma nonneg_stock_deduct_stock:
  "nonneg_stock d \<Longrightarrow> nonneg_stock (fst (deduct_stock d u pk amt reason now))"
  by (auto simp add: deduct_stock_def Let_def nonneg_stock_save_ingredient
      split: sum.splits amount.splits pyfloat.splits)

lemma nonneg_stock_add:
  assumes "nonneg_stock d" and "0 \<le> q"
  shows "nonneg_stock (stock_register_add ing q cost ref note actor d)"
proof (cases "find (\<lambda>i. ing_id i = ing) (ingredients d)")
  case None
  then show ?thesis
    using assms by (simp add: stock_register_add_def)
next
  case (Some i)
  then have "i \<in> set (ingredients d)"
    by (rule find_Some_member)
  then have "0 \<le> current_stock i"
    using assms(1) by (simp add: nonneg_stock_def list_all_iff)
  then show ?thesis
    using Some assms by (simp add: stock_register_add_def Let_def nonneg_stock_save_ingredient)
qed

lemma nonneg_stock_receive_item:
  "nonneg_stock d \<Longrightarrow> nonneg_stock (receive_item po u item_data d)"
  by (simp add: receive_item_def Let_def nonneg_stock_add split: option.splits)

lemma nonneg_stock_receive_items:
  "nonneg_stock d \<Longrightarrow> nonneg_stock (fst (receive_items d po u received today))"
proof -
  have "nonneg_stock d \<Longrightarrow> nonneg_stock (fold (receive_item po u) received d)"
    by (induction received arbitrary: d) (simp_all add: nonneg_stock_receive_item)
  then show "nonneg_stock d \<Longrightarrow> ?thesis"
    by (simp add: receive_items_def Let_def)
qed

lemma nonneg_stock_apply_operation:
  "nonneg_stock d \<Longrightarrow> nonneg_stock (apply_operation op d)"
  by (cases op)
    (simp_all add: nonneg_stock_order_saved nonneg_stock_deduct_stock nonneg_stock_receive_items)

lemma nonneg_stock_run:
  "nonneg_stock d \<Longrightarrow> nonneg_stock (run ops d)"
  unfolding run_def
  by (induction ops arbitrary: d) (simp_all add: nonneg_stock_apply_operation)

text \<open>
  C3: from a database in which no ingredient's balance is negative, every sequence of
  order deductions, manual deductions and purchase-order receipts, whatever quantities
  they ask for, leaves every balance at zero or above after each of its operations.
\<close>

theorem stock_never_negative:
  "nonneg_stock d \<Longrightarrow>
   \<forall>k. \<forall>i \<in> set (ingredients (run (take k ops) d)). 0 \<le> current_stock i"
proof
  fix k
  assume "nonneg_stock d"
  then have "nonneg_stock (run (take k ops) d)"
    by (rule nonneg_stock_run)
  then show "\<forall>i \<in> set (ingredients (run (take k ops) d)). 0 \<le> current_stock i"
    by (simp add: nonneg_stock_def list_all_iff)
qed

theorem stock_never_negative_witness:
  "nonneg_stock flour_db
   \<and> list_all (\<lambda>i. 0 \<le> current_stock i)
       (ingredients
          (run [Order_saved order_a1,
                Receive flour_po admin_user [receipt_10] ''2025-01-01'',
                Manual_deduct admin_user 1 (Parsed (Finite 4)) None ''20250101120000'',
                Manual_deduct admin_user 1 (Parsed (Finite 12)) None ''20250101120500''] flour_db))
   \<and> map current_stock (ingredients
          (run [Order_saved order_a1,
                Receive flour_po admin_user [receipt_10] ''2025-01-01'',
                Manual_deduct admin_user 1 (Parsed (Finite 4)) None ''20250101120000'',
                Manual_deduct admin_user 1 (Parsed (Finite 12)) None ''20250101120500''] flour_db))
       = [6]"
proof -
  have h: "nonneg_stock flour_db"
    by code_simp
  have e: "map current_stock (ingredients
          (run [Order_saved order_a1,
                Receive flour_po admin_user [receipt_10] ''2025-01-01'',
                Manual_deduct admin_user 1 (Parsed (Finite 4)) None ''20250101120000'',
                Manual_deduct admin_user 1 (Parsed (Finite 12)) None ''20250101120500''] flour_db))
       = [6]"
    by code_simp
  show ?thesis
    using h e
      stock_never_negative [OF h,
        of "[Order_saved order_a1,
             Receive flour_po admin_user [receipt_10] ''2025-01-01'',
             Manual_deduct admin_user 1 (Parsed (Finite 4)) None ''20250101120000'',
             Manual_deduct admin_user 1 (Parsed (Finite 12)) None ''20250101120500'']",
        THEN spec, of 4]
    by (simp add: list_all_iff)
qed

section \<open>The exact operations are the rounded ones without rounding\<close>

lemma exact_fields [simp]:
  "ctx exact x = x" "stored exact x = x" "float_str exact x = x"
  by (simp_all add: exact_def)

lemma store_ingredient_exact [simp]: "store_ingredient exact i = i"
  by (simp add: store_ingredient_def)

lemma store_movement_exact [simp]: "store_movement exact m = m"
  by (simp add: store_movement_def)

lemma store_po_item_exact [simp]: "store_po_item exact x = x"
  by (simp add: store_po_item_def)

lemma deduct_ingredient_dec_exact:
  "deduct_ingredient_dec exact ck qty ord su idata st = deduct_ingredient ck qty ord su idata st"
  by (simp add: deduct_ingredient_dec_def deduct_ingredient_def save_ingredient_dec_def
      create_movement_dec_def Let_def split: list.splits)

lemma deduct_stock_dec_exact:
  "deduct_stock_dec exact d u pk amt reason now = deduct_stock d u pk amt reason now"
  by (simp add: deduct_stock_dec_def deduct_stock_def save_ingredient_dec_def
      create_movement_dec_def Let_def split: sum.splits amount.splits pyfloat.splits)

lemma receive_item_dec_exact:
  "receive_item_dec exact po u item_data d = receive_item po u item_data d"
  by (simp add: receive_item_dec_def receive_item_def stock_register_add_dec_def
      stock_register_add_def save_ingredient_dec_def create_movement_dec_def save_po_item_dec_def
      Let_def split: option.splits)

lemma order_confirmation_dec_exact:
  "deduct_ingredients_on_order_confirmation_dec exact d instance =
     deduct_ingredients_on_order_confirmation d instance"
proof -
  have b: "deduct_ingredient_dec exact ck qty ord su = deduct_ingredient ck qty ord su"
    for ck qty ord su
    by (intro ext) (rule deduct_ingredient_dec_exact)
  have c: "deduct_ingredients_for_cake_dec exact ck qty ord su =
             deduct_ingredients_for_cake ck qty ord su" for ck qty ord su
    by (intro ext) (simp add: deduct_ingredients_for_cake_dec_def deduct_ingredients_for_cake_def b)
  have "deduct_order_items_dec exact ord su order_items st =
          deduct_order_items ord su order_items st" for ord su order_items st
    unfolding deduct_order_items_dec_def deduct_order_items_def c ..
  then show ?thesis
    unfolding deduct_ingredients_on_order_confirmation_dec_def
      deduct_ingredients_on_order_confirmation_def by (simp split: list.splits)
qed

lemma receive_items_dec_exact:
  "receive_items_dec exact d po u received today = receive_items d po u received today"
proof -
  have "receive_item_dec exact po u = receive_item po u"
    by (intro ext) (rule receive_item_dec_exact)
  then show ?thesis
    unfolding receive_items_dec_def receive_items_def by simp
qed

lemma run_dec_exact: "run_dec exact ops d = run ops d"
proof -
  have "apply_operation_dec exact op d = apply_operation op d" for op d
    by (cases op)
      (simp_all add: order_confirmation_dec_exact deduct_stock_dec_exact receive_items_dec_exact)
  then have "apply_operation_dec exact = apply_operation"
    by (intro ext)
  then show ?thesis
    by (simp add: run_dec_def run_def)
qed

section \<open>The movement ledger chains\<close>

lemma chained_snoc:
  "chained (ms @ [m]) = (chained ms \<and> (ms = [] \<or> new_stock (last ms) = previous_stock m))"
  by (induction ms rule: chained.induct) auto

lemma chained_nth:
  "chained ms \<Longrightarrow> Suc k < length ms \<Longrightarrow> new_stock (ms ! k) = previous_stock (ms ! Suc k)"
proof (induction ms arbitrary: k rule: chained.induct)
  case (1 m m' ms)
  then show ?case
    by (cases k) auto
qed simp_all

lemma ledger_create_movement:
  "ledger (create_movement m d) k =
     ledger d k @ (if mv_ingredient m = k then [m] else [])"
  by (simp add: ledger_def create_movement_def)

lemma ledger_save_ingredient [simp]:
  "ledger (save_ingredient i d) k = ledger d k"
  by (simp add: ledger_def save_ingredient_def)

lemma ledger_stored_save_po_item [simp]:
  "ledger_stored ar (save_po_item x d) = ledger_stored ar d"
  by (simp add: ledger_stored_def ledger_def) 

lemma ids_save_ingredient:
  "ing_id i' = ing_id i \<Longrightarrow>
   map ing_id (ingredients (save_ingredient i' d)) = map ing_id (ingredients d)"
  by (simp add: save_ingredient_def comp_def cong: map_cong)

lemma filter_Cons_member: "filter P xs = x # others \<Longrightarrow> x \<in> set xs"
proof -
  assume "filter P xs = x # others"
  then have "x \<in> set (filter P xs)"
    by simp
  then show ?thesis
    by simp
qed

text \<open>
  The one step all three operations share, on the rows as they are kept: the balance of
  a row of the table is replaced, and a movement that starts at the old balance and ends
  at the new one is appended.
\<close>

lemma ledger_stored_rows:
  assumes inv: "ledger_stored ar d" and mem: "i \<in> set (ingredients d)"
    and same: "ing_id i' = ing_id i" and mi: "mv_ingredient m = ing_id i"
    and prev: "previous_stock m = current_stock i" and new: "new_stock m = current_stock i'"
    and kept: "stored ar (current_stock i') = current_stock i'"
  shows "ledger_stored ar (create_movement m (save_ingredient i' d))"
proof -
  let ?d' = "create_movement m (save_ingredient i' d)"
  have ids: "map ing_id (ingredients ?d') = map ing_id (ingredients d)"
    using ids_save_ingredient [OF same] by (simp add: create_movement_def)
  have mvs: "movements ?d' = movements d @ [m]"
    by (simp add: create_movement_def save_ingredient_def)
  have c1: "distinct (map ing_id (ingredients ?d'))"
    using inv ids by (simp add: ledger_stored_def)
  have "ing_id i \<in> set (map ing_id (ingredients d))"
    using mem by simp
  then have c2: "list_all (\<lambda>x. mv_ingredient x \<in> set (map ing_id (ingredients ?d')))
                   (movements ?d')"
    using inv mi unfolding ids mvs by (simp add: ledger_stored_def)
  have old: "stored ar (current_stock r) = current_stock r \<and> chained (ledger d (ing_id r))
               \<and> (ledger d (ing_id r) = [] \<or> new_stock (last (ledger d (ing_id r))) = current_stock r)"
    if "r \<in> set (ingredients d)" for r
    using inv that by (auto simp add: ledger_stored_def list_all_iff split: if_splits)
  have c3: "stored ar (current_stock r) = current_stock r
              \<and> chained (ledger ?d' (ing_id r))
              \<and> (if ledger ?d' (ing_id r) = [] then True
                  else new_stock (last (ledger ?d' (ing_id r))) = current_stock r)"
    if r: "r \<in> set (ingredients ?d')" for r
  proof (cases "ing_id r = ing_id i")
    case True
    have "r \<in> set (map (\<lambda>x. if ing_id x = ing_id i' then i' else x) (ingredients d))"
      using r by (simp add: create_movement_def save_ingredient_def)
    then have "r = i'"
      using True same by auto
    moreover have "ledger ?d' (ing_id i) = ledger d (ing_id i) @ [m]"
      using mi by (simp add: ledger_create_movement)
    ultimately show ?thesis
      using old [OF mem] same prev new kept by (simp add: chained_snoc)
  next
    case False
    have "r \<in> set (map (\<lambda>x. if ing_id x = ing_id i' then i' else x) (ingredients d))"
      using r by (simp add: create_movement_def save_ingredient_def)
    then have "r \<in> set (ingredients d)"
      using False same by auto
    moreover have "ledger ?d' (ing_id r) = ledger d (ing_id r)"
      using False mi by (simp add: ledger_create_movement)
    ultimately show ?thesis
      using old [of r] by auto
  qed
  show ?thesis
    unfolding ledger_stored_def
    using c1 c2 c3 by (simp add: list_all_iff)
qed

text \<open>
  The same step on the values the code passes to the ORM: the movement's
  \<open>previous_stock\<close> is the balance that was read, its \<open>new_stock\<close> the balance that is
  saved, and the column rounds both copies of the new balance alike.
\<close>

lemma ledger_stored_write:
  assumes idem: "\<And>x. stored ar (stored ar x) = stored ar x"
    and inv: "ledger_stored ar d" and mem: "i \<in> set (ingredients d)"
    and same: "ing_id i' = ing_id i" and mi: "mv_ingredient m = ing_id i"
    and prev: "previous_stock m = current_stock i" and new: "new_stock m = current_stock i'"
  shows "ledger_stored ar (create_movement_dec ar m (save_ingredient_dec ar i' d))"
proof -
  have "stored ar (current_stock i) = current_stock i"
    using inv mem by (auto simp add: ledger_stored_def list_all_iff)
  then have p: "previous_stock (store_movement ar m) = current_stock i"
    using prev by (simp add: store_movement_def)
  show ?thesis
    unfolding create_movement_dec_def save_ingredient_dec_def
  proof (rule ledger_stored_rows)
    show "ledger_stored ar d"
      by (rule inv)
    show "i \<in> set (ingredients d)"
      by (rule mem)
    show "previous_stock (store_movement ar m) = current_stock i"
      by (rule p)
    show "ing_id (store_ingredient ar i') = ing_id i"
      using same by (simp add: store_ingredient_def)
    show "mv_ingredient (store_movement ar m) = ing_id i"
      using mi by (simp add: store_movement_def)
    show "new_stock (store_movement ar m) = current_stock (store_ingredient ar i')"
      using new by (simp add: store_movement_def store_ingredient_def)
    show "stored ar (current_stock (store_ingredient ar i')) = current_stock (store_ingredient ar i')"
      using idem by (simp add: store_ingredient_def)
  qed
qed

text \<open>What one pass of the recipe loop does to the database: nothing, or one write.\<close>

lemma deduct_ingredient_dec_cases:
  obtains (untouched) "fst (deduct_ingredient_dec ar ck qty ord su idata st) = fst st"
  | (written) i n m where
      "i \<in> set (ingredients (fst st))" and "0 < n"
      and "mv_ingredient m = ing_id i" and "mv_type m = Out" and "quantity m = n"
      and "previous_stock m = current_stock i"
      and "new_stock m = max 0 (ctx ar (current_stock i - n))"
      and "fst (deduct_ingredient_dec ar ck qty ord su idata st) =
             create_movement_dec ar m
               (save_ingredient_dec ar
                  (i\<lparr>current_stock := max 0 (ctx ar (current_stock i - n))\<rparr>) (fst st))"
proof -
  define name where "name = (case d_name idata of None \<Rightarrow> [] | Some n \<Rightarrow> n)"
  define q where "q = (case d_quantity idata of None \<Rightarrow> 0 | Some q \<Rightarrow> q)"
  show thesis
  proof (cases "name = [] \<or> q \<le> 0")
    case True
    then have "fst (deduct_ingredient_dec ar ck qty ord su idata st) = fst st"
      by (simp add: deduct_ingredient_dec_def Let_def name_def q_def)
    then show thesis by (rule untouched)
  next
    case valid: False
    show thesis
    proof (cases "filter (\<lambda>i. iexact (ing_name i) name) (ingredients (fst st))")
      case Nil
      then have "fst (deduct_ingredient_dec ar ck qty ord su idata st) = fst st"
        using valid by (simp add: deduct_ingredient_dec_def Let_def name_def q_def)
      then show thesis by (rule untouched)
    next
      case (Cons i others)
      define n where
        "n = (if current_stock i < ctx ar (q * of_int qty) then current_stock i
              else ctx ar (q * of_int qty))"
      show thesis
      proof (cases "0 < n")
        case False
        then have "fst (deduct_ingredient_dec ar ck qty ord su idata st) = fst st"
          using valid Cons
          by (simp add: deduct_ingredient_dec_def Let_def name_def [symmetric] q_def [symmetric]
              n_def [symmetric])
        then show thesis by (rule untouched)
      next
        case True
        let ?m = "\<lparr>mv_ingredient = ing_id i, mv_type = Out, quantity = n,
                   previous_stock = current_stock i,
                   new_stock = max 0 (ctx ar (current_stock i - n)),
                   mv_unit_cost = unit_cost i, total_value = ctx ar (n * unit_cost i),
                   reference = ''ORDER-'' @ order_number ord,
                   mv_notes = ''Automatic deduction for order #'' @ order_number ord
                              @ '' - '' @ cake_name ck @ '' (x'' @ show_int qty @ '')'',
                   created_by = user_id su\<rparr>"
        have "fst (deduct_ingredient_dec ar ck qty ord su idata st) =
                create_movement_dec ar ?m
                  (save_ingredient_dec ar
                     (i\<lparr>current_stock := max 0 (ctx ar (current_stock i - n))\<rparr>) (fst st))"
          using valid Cons True
          by (simp add: deduct_ingredient_dec_def Let_def name_def [symmetric] q_def [symmetric]
              n_def [symmetric])
        moreover have "i \<in> set (ingredients (fst st))"
          using Cons by (rule filter_Cons_member)
        ultimately show thesis
          using True by (intro written [of i n ?m]) simp_all
      qed
    qed
  qed
qed

lemma ledger_stored_deduct_ingredient:
  assumes idem: "\<And>x. stored ar (stored ar x) = stored ar x"
    and inv: "ledger_stored ar (fst st)"
  shows "ledger_stored ar (fst (deduct_ingredient_dec ar ck qty ord su idata st))"
proof (cases rule: deduct_ingredient_dec_cases [of ar ck qty ord su idata st])
  case untouched
  then show ?thesis
    using inv by simp
next
  case (written i n m)
  have "ledger_stored ar
          (create_movement_dec ar m
             (save_ingredient_dec ar
                (i\<lparr>current_stock := max 0 (ctx ar (current_stock i - n))\<rparr>) (fst st)))"
    using idem inv written(1)
    by (rule ledger_stored_write) (simp_all add: written)
  then show ?thesis
    using written by simp
qed

text \<open>Whatever every pass of the loop keeps, the loop keeps, raising or not.\<close>

lemma deduct_entries_keeps:
  assumes "\<And>idata st. P (fst st) \<Longrightarrow> P (fst (body idata st))" and "P (fst st)"
  shows "P (fst (deduct_entries body name entries st))"
  using assms(2)
proof (induction entries arbitrary: st)
  case Nil
  then show ?case by simp
next
  case (Cons entry entries)
  show ?case
  proof (cases entry)
    case (Line idata)
    have "P (fst (body idata st))"
      using Cons.prems by (rule assms(1))
    then have "P (fst (deduct_entries body name entries (body idata st)))"
      by (rule Cons.IH)
    then show ?thesis
      using Line by simp
  next
    case Raises
    then show ?thesis
      using Cons.prems by simp
  qed
qed

lemma ledger_stored_deduct_ingredients_for_cake:
  assumes "\<And>x. stored ar (stored ar x) = stored ar x" and "ledger_stored ar (fst st)"
  shows "ledger_stored ar (fst (deduct_ingredients_for_cake_dec ar ck qty ord su st))"
proof (cases "cake_ingredients ck = []")
  case True
  then show ?thesis
    using assms(2) by (simp add: deduct_ingredients_for_cake_dec_def)
next
  case False
  have "ledger_stored ar (fst (deduct_entries (deduct_ingredient_dec ar ck qty ord su)
          (cake_name ck) (cake_ingredients ck) st))"
    using assms(2)
    by (rule deduct_entries_keeps [rotated]) (rule ledger_stored_deduct_ingredient [OF assms(1)])
  then show ?thesis
    using False by (simp add: deduct_ingredients_for_cake_dec_def)
qed

lemma ledger_stored_deduct_order_items:
  assumes "\<And>x. stored ar (stored ar x) = stored ar x"
  shows "ledger_stored ar (fst st) \<Longrightarrow>
         ledger_stored ar (fst (deduct_order_items_dec ar ord su order_items st))"
  unfolding deduct_order_items_dec_def
  by (induction order_items arbitrary: st)
    (simp_all add: ledger_stored_deduct_ingredients_for_cake [OF assms])

lemma ledger_stored_order_saved:
  assumes "\<And>x. stored ar (stored ar x) = stored ar x" and "ledger_stored ar d"
  shows "ledger_stored ar (fst (fst (deduct_ingredients_on_order_confirmation_dec ar d instance)))"
  using assms(2)
  by (simp add: deduct_ingredients_on_order_confirmation_dec_def
      ledger_stored_deduct_order_items [OF assms(1)] split: list.splits)

lemma deduct_stock_dec_rejected_unchanged:
  "\<not> is_success (snd (deduct_stock_dec ar d u pk amt reason now))
     \<Longrightarrow> fst (deduct_stock_dec ar d u pk amt reason now) = d"
  by (auto simp add: deduct_stock_dec_def is_success_def Let_def
      split: sum.splits amount.splits pyfloat.splits if_splits)

lemma deduct_stock_dec_success:
  assumes "is_success (snd (deduct_stock_dec ar d u pk amt reason now))"
  obtains i f where "find (\<lambda>i. ing_id i = pk) (ingredients d) = Some i"
    and "amt = Parsed (Finite f)" and "0 < f" and "\<not> current_stock i < f"
    and "fst (deduct_stock_dec ar d u pk amt reason now) =
           create_movement_dec ar
             \<lparr>mv_ingredient = ing_id i, mv_type = Out, quantity = float_str ar f,
              previous_stock = current_stock i,
              new_stock = ctx ar (current_stock i - float_str ar f),
              mv_unit_cost = unit_cost i,
              total_value = ctx ar (float_str ar f * unit_cost i),
              reference = ''MANUAL-'' @ now,
              mv_notes = ''Manual deduction: ''
                         @ (case reason of None \<Rightarrow> ''Manual deduction'' | Some r \<Rightarrow> r),
              created_by = user_id u\<rparr>
             (save_ingredient_dec ar
                (i\<lparr>current_stock := ctx ar (current_stock i - float_str ar f)\<rparr>) d)"
proof -
  from assms obtain i f where i: "find (\<lambda>i. ing_id i = pk) (ingredients d) = Some i"
    and a: "amt = Parsed (Finite f)" "\<not> current_stock i < f"
    and ok: "get_object d u pk = Inr i" "\<not> f \<le> 0"
      "is_admin u \<or> is_inventory_manager u \<or> is_staff_member u"
    by (auto simp add: deduct_stock_dec_def is_success_def get_object_def Let_def
        split: sum.splits amount.splits pyfloat.splits if_splits option.splits)
  show thesis
  proof (rule that [OF i a(1) _ a(2)])
    show "0 < f"
      using ok(2) by simp
    show "fst (deduct_stock_dec ar d u pk amt reason now) =
           create_movement_dec ar
             \<lparr>mv_ingredient = ing_id i, mv_type = Out, quantity = float_str ar f,
              previous_stock = current_stock i,
              new_stock = ctx ar (current_stock i - float_str ar f),
              mv_unit_cost = unit_cost i,
              total_value = ctx ar (float_str ar f * unit_cost i),
              reference = ''MANUAL-'' @ now,
              mv_notes = ''Manual deduction: ''
                         @ (case reason of None \<Rightarrow> ''Manual deduction'' | Some r \<Rightarrow> r),
              created_by = user_id u\<rparr>
             (save_ingredient_dec ar
                (i\<lparr>current_stock := ctx ar (current_stock i - float_str ar f)\<rparr>) d)"
      using a ok by (simp add: deduct_stock_dec_def Let_def)
  qed
qed

lemma ledger_stored_deduct_stock:
  assumes idem: "\<And>x. stored ar (stored ar x) = stored ar x" and inv: "ledger_stored ar d"
  shows "ledger_stored ar (fst (deduct_stock_dec ar d u pk amt reason now))"
proof (cases "is_success (snd (deduct_stock_dec ar d u pk amt reason now))")
  case False
  then show ?thesis
    using inv by (simp add: deduct_stock_dec_rejected_unchanged)
next
  case True
  then show ?thesis
  proof (rule deduct_stock_dec_success)
    fix i f
    assume i: "find (\<lambda>i. ing_id i = pk) (ingredients d) = Some i"
      and eq: "fst (deduct_stock_dec ar d u pk amt reason now) =
           create_movement_dec ar
             \<lparr>mv_ingredient = ing_id i, mv_type = Out, quantity = float_str ar f,
              previous_stock = current_stock i,
              new_stock = ctx ar (current_stock i - float_str ar f),
              mv_unit_cost = unit_cost i,
              total_value = ctx ar (float_str ar f * unit_cost i),
              reference = ''MANUAL-'' @ now,
              mv_notes = ''Manual deduction: ''
                         @ (case reason of None \<Rightarrow> ''Manual deduction'' | Some r \<Rightarrow> r),
              created_by = user_id u\<rparr>
             (save_ingredient_dec ar
                (i\<lparr>current_stock := ctx ar (current_stock i - float_str ar f)\<rparr>) d)"
    have "i \<in> set (ingredients d)"
      using i by (rule find_Some_member)
    with idem inv show ?thesis
      unfolding eq by (rule ledger_stored_write) simp_all
  qed
qed

lemma ledger_stored_add:
  assumes idem: "\<And>x. stored ar (stored ar x) = stored ar x" and inv: "ledger_stored ar d"
  shows "ledger_stored ar (stock_register_add_dec ar ing q cost ref note actor d)"
proof (cases "find (\<lambda>i. ing_id i = ing) (ingredients d)")
  case None
  then show ?thesis
    using inv by (simp add: stock_register_add_dec_def)
next
  case (Some i)
  then have "i \<in> set (ingredients d)"
    by (rule find_Some_member)
  with idem inv have "ledger_stored ar
      (create_movement_dec ar
         \<lparr>mv_ingredient = ing_id i, mv_type = In, quantity = q,
          previous_stock = current_stock i, new_stock = ctx ar (current_stock i + q),
          mv_unit_cost = cost, total_value = ctx ar (q * cost),
          reference = ref, mv_notes = note, created_by = actor\<rparr>
         (save_ingredient_dec ar
            (i\<lparr>current_stock := ctx ar (current_stock i + q), unit_cost := cost\<rparr>) d))"
    by (rule ledger_stored_write) simp_all
  then show ?thesis
    using Some by (simp add: stock_register_add_dec_def Let_def)
qed

lemma ledger_stored_receive_item:
  assumes "\<And>x. stored ar (stored ar x) = stored ar x" and "ledger_stored ar d"
  shows "ledger_stored ar (receive_item_dec ar po u item_data d)"
  using assms(2)
  by (simp add: receive_item_dec_def Let_def save_po_item_dec_def
      ledger_stored_add [OF assms(1)] split: option.splits)

lemma ledger_stored_receive_items:
  assumes "\<And>x. stored ar (stored ar x) = stored ar x"
  shows "ledger_stored ar d \<Longrightarrow>
         ledger_stored ar (fst (receive_items_dec ar d po u received today))"
proof -
  have "ledger_stored ar d \<Longrightarrow> ledger_stored ar (fold (receive_item_dec ar po u) received d)"
    by (induction received arbitrary: d) (simp_all add: ledger_stored_receive_item [OF assms])
  then show "ledger_stored ar d \<Longrightarrow> ?thesis"
    by (simp add: receive_items_dec_def Let_def)
qed

lemma ledger_stored_run:
  assumes "\<And>x. stored ar (stored ar x) = stored ar x"
  shows "ledger_stored ar d \<Longrightarrow> ledger_stored ar (run_dec ar ops d)"
proof -
  have step: "ledger_stored ar d \<Longrightarrow> ledger_stored ar (apply_operation_dec ar op d)" for op d
    by (cases op)
      (simp_all add: ledger_stored_order_saved [OF assms] ledger_stored_deduct_stock [OF assms]
        ledger_stored_receive_items [OF assms])
  show "ledger_stored ar d \<Longrightarrow> ?thesis"
    unfolding run_dec_def by (induction ops arbitrary: d) (simp_all add: step)
qed

lemma ledger_stored_chained:
  assumes "ledger_stored ar d"
  shows "chained (ledger d k)"
proof (cases "k \<in> set (map ing_id (ingredients d))")
  case True
  then obtain r where "r \<in> set (ingredients d)" and "ing_id r = k"
    by auto
  then show ?thesis
    using assms by (auto simp add: ledger_stored_def list_all_iff)
next
  case False
  then have "ledger d k = []"
    using assms by (auto simp add: ledger_stored_def list_all_iff ledger_def filter_empty_conv)
  then show ?thesis
    by simp
qed

lemma ledger_stored_empty:
  "distinct (map ing_id (ingredients d)) \<Longrightarrow> movements d = [] \<Longrightarrow>
   list_all (\<lambda>i. stored ar (current_stock i) = current_stock i) (ingredients d) \<Longrightarrow>
   ledger_stored ar d"
  by (simp add: ledger_stored_def ledger_def list_all_iff)

subsection \<open>A row is balanced when nothing was rounded\<close>

lemma movements_written:
  "movements (create_movement_dec ar m (save_ingredient_dec ar i d)) =
     movements d @ [store_movement ar m]"
  by (simp add: create_movement_dec_def save_ingredient_dec_def create_movement_def
      save_ingredient_def)

lemma deduct_ingredient_dec_unrounded:
  assumes "d_name idata = Some n" and "n \<noteq> []" and "d_quantity idata = Some q" and "0 < q"
    and "filter (\<lambda>i. iexact (ing_name i) n) (ingredients d) = i # others"
    and needed: "needed = (if current_stock i < ctx ar (q * of_int qty) then current_stock i
                           else ctx ar (q * of_int qty))"
    and "0 < needed"
    and "stored ar needed = needed" and "stored ar (current_stock i) = current_stock i"
    and "unrounded ar (current_stock i - needed)"
  shows "movements (fst (deduct_ingredient_dec ar ck qty ord su idata (d, evs))) =
           movements d @ [last (movements (fst (deduct_ingredient_dec ar ck qty ord su idata (d, evs))))]"
    and "quantity (last (movements (fst (deduct_ingredient_dec ar ck qty ord su idata (d, evs)))))
           = needed"
    and "previous_stock (last (movements (fst (deduct_ingredient_dec ar ck qty ord su idata (d, evs)))))
           = current_stock i"
    and "new_stock (last (movements (fst (deduct_ingredient_dec ar ck qty ord su idata (d, evs)))))
           = current_stock i - needed"
    and "mv_type (last (movements (fst (deduct_ingredient_dec ar ck qty ord su idata (d, evs)))))
           = Out"
proof -
  have le: "needed \<le> current_stock i"
    by (simp add: needed)
  have u: "ctx ar (current_stock i - needed) = current_stock i - needed"
    "stored ar (current_stock i - needed) = current_stock i - needed"
    using assms(10) by (simp_all add: unrounded_def)
  have mx: "max 0 (ctx ar (current_stock i - needed)) = current_stock i - needed"
    using le u(1) by simp
  let ?m = "\<lparr>mv_ingredient = ing_id i, mv_type = Out, quantity = needed,
             previous_stock = current_stock i, new_stock = current_stock i - needed,
             mv_unit_cost = unit_cost i, total_value = ctx ar (needed * unit_cost i),
             reference = ''ORDER-'' @ order_number ord,
             mv_notes = ''Automatic deduction for order #'' @ order_number ord
                        @ '' - '' @ cake_name ck @ '' (x'' @ show_int qty @ '')'',
             created_by = user_id su\<rparr>"
  have "fst (deduct_ingredient_dec ar ck qty ord su idata (d, evs)) =
          create_movement_dec ar ?m
            (save_ingredient_dec ar (i\<lparr>current_stock := current_stock i - needed\<rparr>) d)"
    using assms(1-5,7)
    by (simp add: deduct_ingredient_dec_def Let_def needed [symmetric] mx)
  then have mv: "movements (fst (deduct_ingredient_dec ar ck qty ord su idata (d, evs))) =
                   movements d @ [store_movement ar ?m]"
    by (simp add: movements_written)
  show "movements (fst (deduct_ingredient_dec ar ck qty ord su idata (d, evs))) =
           movements d @ [last (movements (fst (deduct_ingredient_dec ar ck qty ord su idata (d, evs))))]"
    by (simp add: mv)
  show "quantity (last (movements (fst (deduct_ingredient_dec ar ck qty ord su idata (d, evs)))))
           = needed"
    using assms(8) by (simp add: mv store_movement_def)
  show "previous_stock (last (movements (fst (deduct_ingredient_dec ar ck qty ord su idata (d, evs)))))
           = current_stock i"
    using assms(9) by (simp add: mv store_movement_def)
  show "new_stock (last (movements (fst (deduct_ingredient_dec ar ck qty ord su idata (d, evs)))))
           = current_stock i - needed"
    using u(2) by (simp add: mv store_movement_def)
  show "mv_type (last (movements (fst (deduct_ingredient_dec ar ck qty ord su idata (d, evs)))))
           = Out"
    by (simp add: mv store_movement_def)
qed

lemma deduct_stock_dec_unrounded:
  assumes "get_object d u pk = Inr i" and "0 < f" and "\<not> current_stock i < f"
    and "stored ar (float_str ar f) = float_str ar f"
    and "stored ar (current_stock i) = current_stock i"
    and "unrounded ar (current_stock i - float_str ar f)"
  shows "movements (fst (deduct_stock_dec ar d u pk (Parsed (Finite f)) reason now)) =
           movements d @ [last (movements (fst (deduct_stock_dec ar d u pk (Parsed (Finite f)) reason now)))]"
    and "quantity (last (movements (fst (deduct_stock_dec ar d u pk (Parsed (Finite f)) reason now))))
           = float_str ar f"
    and "previous_stock (last (movements (fst (deduct_stock_dec ar d u pk (Parsed (Finite f)) reason now))))
           = current_stock i"
    and "new_stock (last (movements (fst (deduct_stock_dec ar d u pk (Parsed (Finite f)) reason now))))
           = current_stock i - float_str ar f"
    and "mv_type (last (movements (fst (deduct_stock_dec ar d u pk (Parsed (Finite f)) reason now))))
           = Out"
proof -
  have u: "ctx ar (current_stock i - float_str ar f) = current_stock i - float_str ar f"
    "stored ar (current_stock i - float_str ar f) = current_stock i - float_str ar f"
    using assms(6) by (simp_all add: unrounded_def)
  have perm: "is_admin u \<or> is_inventory_manager u \<or> is_staff_member u"
    using assms(1) by (auto simp add: get_object_def may_use_ingredients_def split: if_splits)
  have mv: "movements (fst (deduct_stock_dec ar d u pk (Parsed (Finite f)) reason now)) =
      movements d @
      [store_movement ar
         \<lparr>mv_ingredient = ing_id i, mv_type = Out, quantity = float_str ar f,
          previous_stock = current_stock i, new_stock = current_stock i - float_str ar f,
          mv_unit_cost = unit_cost i, total_value = ctx ar (float_str ar f * unit_cost i),
          reference = ''MANUAL-'' @ now,
          mv_notes = ''Manual deduction: ''
                     @ (case reason of None \<Rightarrow> ''Manual deduction'' | Some r \<Rightarrow> r),
          created_by = user_id u\<rparr>]"
    using assms(1-3) perm u(1)
    by (simp add: deduct_stock_dec_def Let_def movements_written)
  show "movements (fst (deduct_stock_dec ar d u pk (Parsed (Finite f)) reason now)) =
           movements d @ [last (movements (fst (deduct_stock_dec ar d u pk (Parsed (Finite f)) reason now)))]"
    by (simp add: mv)
  show "quantity (last (movements (fst (deduct_stock_dec ar d u pk (Parsed (Finite f)) reason now))))
           = float_str ar f"
    using assms(4) by (simp add: mv store_movement_def)
  show "previous_stock (last (movements (fst (deduct_stock_dec ar d u pk (Parsed (Finite f)) reason now))))
           = current_stock i"
    using assms(5) by (simp add: mv store_movement_def)
  show "new_stock (last (movements (fst (deduct_stock_dec ar d u pk (Parsed (Finite f)) reason now))))
           = current_stock i - float_str ar f"
    using u(2) by (simp add: mv store_movement_def)
  show "mv_type (last (movements (fst (deduct_stock_dec ar d u pk (Parsed (Finite f)) reason now))))
           = Out"
    by (simp add: mv store_movement_def)
qed

lemma receive_item_dec_unrounded:
  assumes "find (\<lambda>x. poi_id x = item_id item_data \<and> poi_purchase_order x = po_id po) (po_items d)
             = Some po_item"
    and "0 < ri_received_quantity item_data"
    and "find (\<lambda>i. ing_id i = poi_ingredient po_item) (ingredients d) = Some i"
    and "stored ar (ri_received_quantity item_data) = ri_received_quantity item_data"
    and "stored ar (current_stock i) = current_stock i"
    and "unrounded ar (current_stock i + ri_received_quantity item_data)"
  shows "movements (receive_item_dec ar po u item_data d) =
           movements d @ [last (movements (receive_item_dec ar po u item_data d))]"
    and "quantity (last (movements (receive_item_dec ar po u item_data d)))
           = ri_received_quantity item_data"
    and "previous_stock (last (movements (receive_item_dec ar po u item_data d)))
           = current_stock i"
    and "new_stock (last (movements (receive_item_dec ar po u item_data d)))
           = current_stock i + ri_received_quantity item_data"
    and "mv_type (last (movements (receive_item_dec ar po u item_data d))) = In"
proof -
  let ?q = "ri_received_quantity item_data"
  have u: "ctx ar (current_stock i + ?q) = current_stock i + ?q"
    "stored ar (current_stock i + ?q) = current_stock i + ?q"
    using assms(6) by (simp_all add: unrounded_def)
  have k: "ing_id i = poi_ingredient po_item"
    using assms(3) find_Some_holds by fastforce
  have mv: "movements (receive_item_dec ar po u item_data d) =
      movements d @
      [store_movement ar
         \<lparr>mv_ingredient = poi_ingredient po_item, mv_type = In, quantity = ?q,
          previous_stock = current_stock i, new_stock = current_stock i + ?q,
          mv_unit_cost = poi_unit_cost po_item, total_value = ctx ar (?q * poi_unit_cost po_item),
          reference = ''PO #'' @ po_number po,
          mv_notes = ''Received from purchase order'',
          created_by = user_id u\<rparr>]"
    using assms(1-3) k u(1)
    by (simp add: receive_item_dec_def Let_def stock_register_add_dec_def save_po_item_dec_def
        movements_written)
  show "movements (receive_item_dec ar po u item_data d) =
           movements d @ [last (movements (receive_item_dec ar po u item_data d))]"
    by (simp add: mv)
  show "quantity (last (movements (receive_item_dec ar po u item_data d))) = ?q"
    using assms(4) by (simp add: mv store_movement_def)
  show "previous_stock (last (movements (receive_item_dec ar po u item_data d))) = current_stock i"
    using assms(5) by (simp add: mv store_movement_def)
  show "new_stock (last (movements (receive_item_dec ar po u item_data d)))
           = current_stock i + ?q"
    using u(2) by (simp add: mv store_movement_def)
  show "mv_type (last (movements (receive_item_dec ar po u item_data d))) = In"
    by (simp add: mv store_movement_def)
qed

subsection \<open>The column rounding\<close>

lemma round_half_even_of_int: "round_half_even (of_int k) = k"
  by (simp add: round_half_even_def)

lemma quantize_idem: "quantize places (quantize places x) = quantize places x"
  by (simp add: quantize_def round_half_even_of_int)

text \<open>The context keeps 28 digits: a difference of 31 digits comes back rounded.\<close>

lemma context_rounds_difference:
  "ctx two_places (1001 / 100 - 1 / 10 ^ 31) = 1001 / 100"
  by code_simp

text \<open>
  One tenth of a balance of 0.10: the float nearest to one tenth is above the balance, and
  the request is refused.
\<close>

lemma tenth_of_a_tenth_rejected:
  "snd (deduct_stock_dec two_places
          (flour_db\<lparr>ingredients := [flour\<lparr>current_stock := 1 / 10\<rparr>]\<rparr>) admin_user 1
          (Parsed (Finite (3602879701896397 / 36028797018963968))) None ''20250101120000'')
     = Insufficient (1 / 10) (Finite (3602879701896397 / 36028797018963968))"
  by code_simp

subsection \<open>The claim\<close>

text \<open>
  C4, as stated, fails where a value is rounded.  With columns of two decimal places, an
  order for a custard takes 0.005 kg of vanilla from 10.01 kg: the movement is stored
  with quantity 0.00, previous stock 10.01 and new stock 10.00, and
  \<open>10.00 \<noteq> 10.01 - 0.00\<close>.
\<close>

theorem rounded_movement_is_unbalanced:
  "movements (fst (fst (deduct_ingredients_on_order_confirmation_dec two_places pantry_db
                         order_c3)))
     = [\<lparr>mv_ingredient = 2, mv_type = Out, quantity = 0, previous_stock = 1001 / 100,
         new_stock = 10, mv_unit_cost = 40, total_value = 1 / 5, reference = ''ORDER-C3'',
         mv_notes = ''Automatic deduction for order #C3 - Custard (x1)'', created_by = 7\<rparr>]
   \<and> \<not> balanced
         \<lparr>mv_ingredient = 2, mv_type = Out, quantity = 0, previous_stock = 1001 / 100,
          new_stock = 10, mv_unit_cost = 40, total_value = 1 / 5, reference = ''ORDER-C3'',
          mv_notes = ''Automatic deduction for order #C3 - Custard (x1)'', created_by = 7\<rparr>"
  by code_simp

text \<open>
  C4 (amended): let the column rounding be idempotent, and start from a ledger in which
  every balance is a stored value, the movements of each ingredient chain and the last
  of them ends at the balance (for instance an empty ledger).  After any sequence of
  order deductions, manual deductions and purchase-order receipts, in the movements of
  any one ingredient, taken in creation order, the \<open>new_stock\<close> of each is the
  \<open>previous_stock\<close> of the next, whatever was rounded.  A movement written by any of the
  three satisfies \<open>new_stock = previous_stock + signed(quantity, kind)\<close> whenever its
  quantity, the balance read and the resulting balance are left unrounded by the
  \<open>Decimal\<close> context and by the columns.
\<close>

theorem ledger_chained_and_balanced:
  "((\<forall>x. stored ar (stored ar x) = stored ar x) \<and> ledger_stored ar d0 \<longrightarrow>
      (\<forall>ing k. Suc k < length (ledger (run_dec ar ops d0) ing) \<longrightarrow>
         new_stock (ledger (run_dec ar ops d0) ing ! k)
           = previous_stock (ledger (run_dec ar ops d0) ing ! Suc k)))
   \<and> (d_name idata = Some n \<and> n \<noteq> [] \<and> d_quantity idata = Some q \<and> 0 < q
        \<and> filter (\<lambda>i. iexact (ing_name i) n) (ingredients d) = i # others
        \<and> needed = (if current_stock i < ctx ar (q * of_int qty) then current_stock i
                     else ctx ar (q * of_int qty))
        \<and> 0 < needed \<and> stored ar needed = needed
        \<and> stored ar (current_stock i) = current_stock i
        \<and> unrounded ar (current_stock i - needed) \<longrightarrow>
      movements (fst (deduct_ingredient_dec ar ck qty ord su idata (d, evs))) =
        movements d @ [last (movements (fst (deduct_ingredient_dec ar ck qty ord su idata (d, evs))))]
      \<and> quantity (last (movements (fst (deduct_ingredient_dec ar ck qty ord su idata (d, evs)))))
          = needed
      \<and> previous_stock (last (movements (fst (deduct_ingredient_dec ar ck qty ord su idata (d, evs)))))
          = current_stock i
      \<and> balanced (last (movements (fst (deduct_ingredient_dec ar ck qty ord su idata (d, evs))))))
   \<and> (get_object d u pk = Inr j \<and> 0 < f \<and> \<not> current_stock j < f
        \<and> stored ar (float_str ar f) = float_str ar f
        \<and> stored ar (current_stock j) = current_stock j
        \<and> unrounded ar (current_stock j - float_str ar f) \<longrightarrow>
      movements (fst (deduct_stock_dec ar d u pk (Parsed (Finite f)) reason now)) =
        movements d @ [last (movements (fst (deduct_stock_dec ar d u pk (Parsed (Finite f)) reason now)))]
      \<and> quantity (last (movements (fst (deduct_stock_dec ar d u pk (Parsed (Finite f)) reason now))))
          = float_str ar f
      \<and> previous_stock (last (movements (fst (deduct_stock_dec ar d u pk (Parsed (Finite f)) reason now))))
          = current_stock j
      \<and> balanced (last (movements (fst (deduct_stock_dec ar d u pk (Parsed (Finite f)) reason now)))))
   \<and> (find (\<lambda>x. poi_id x = item_id item_data \<and> poi_purchase_order x = po_id po) (po_items d)
          = Some po_item
        \<and> 0 < ri_received_quantity item_data
        \<and> find (\<lambda>i. ing_id i = poi_ingredient po_item) (ingredients d) = Some h
        \<and> stored ar (ri_received_quantity item_data) = ri_received_quantity item_data
        \<and> stored ar (current_stock h) = current_stock h
        \<and> unrounded ar (current_stock h + ri_received_quantity item_data) \<longrightarrow>
      movements (receive_item_dec ar po u item_data d) =
        movements d @ [last (movements (receive_item_dec ar po u item_data d))]
      \<and> quantity (last (movements (receive_item_dec ar po u item_data d)))
          = ri_received_quantity item_data
      \<and> previous_stock (last (movements (receive_item_dec ar po u item_data d)))
          = current_stock h
      \<and> balanced (last (movements (receive_item_dec ar po u item_data d))))"
proof (intro conjI impI allI)
  fix ing k
  assume h: "(\<forall>x. stored ar (stored ar x) = stored ar x) \<and> ledger_stored ar d0"
    and k: "Suc k < length (ledger (run_dec ar ops d0) ing)"
  from h have "ledger_stored ar (run_dec ar ops d0)"
    by (intro ledger_stored_run) simp_all
  then have "chained (ledger (run_dec ar ops d0) ing)"
    by (rule ledger_stored_chained)
  then show "new_stock (ledger (run_dec ar ops d0) ing ! k)
               = previous_stock (ledger (run_dec ar ops d0) ing ! Suc k)"
    using k by (rule chained_nth)
next
  assume h: "d_name idata = Some n \<and> n \<noteq> [] \<and> d_quantity idata = Some q \<and> 0 < q
        \<and> filter (\<lambda>i. iexact (ing_name i) n) (ingredients d) = i # others
        \<and> needed = (if current_stock i < ctx ar (q * of_int qty) then current_stock i
                     else ctx ar (q * of_int qty))
        \<and> 0 < needed \<and> stored ar needed = needed
        \<and> stored ar (current_stock i) = current_stock i
        \<and> unrounded ar (current_stock i - needed)"
  note r = deduct_ingredient_dec_unrounded [of idata n q d i others needed ar qty ck ord su evs]
  from h show "movements (fst (deduct_ingredient_dec ar ck qty ord su idata (d, evs))) =
        movements d @ [last (movements (fst (deduct_ingredient_dec ar ck qty ord su idata (d, evs))))]"
    using r(1) by blast
  from h show "quantity (last (movements (fst (deduct_ingredient_dec ar ck qty ord su idata (d, evs)))))
          = needed"
    using r(2) by blast
  from h show "previous_stock (last (movements (fst (deduct_ingredient_dec ar ck qty ord su idata (d, evs)))))
          = current_stock i"
    using r(3) by blast
  from h have "quantity (last (movements (fst (deduct_ingredient_dec ar ck qty ord su idata (d, evs)))))
          = needed"
    and "previous_stock (last (movements (fst (deduct_ingredient_dec ar ck qty ord su idata (d, evs)))))
          = current_stock i"
    and "new_stock (last (movements (fst (deduct_ingredient_dec ar ck qty ord su idata (d, evs)))))
          = current_stock i - needed"
    and "mv_type (last (movements (fst (deduct_ingredient_dec ar ck qty ord su idata (d, evs)))))
          = Out"
    using r(2) r(3) r(4) r(5) by blast+
  then show "balanced (last (movements (fst (deduct_ingredient_dec ar ck qty ord su idata (d, evs)))))"
    by (simp add: balanced_def signed_def)
next
  assume h: "get_object d u pk = Inr j \<and> 0 < f \<and> \<not> current_stock j < f
        \<and> stored ar (float_str ar f) = float_str ar f
        \<and> stored ar (current_stock j) = current_stock j
        \<and> unrounded ar (current_stock j - float_str ar f)"
  note r = deduct_stock_dec_unrounded [of d u pk j f ar reason now]
  from h show "movements (fst (deduct_stock_dec ar d u pk (Parsed (Finite f)) reason now)) =
        movements d @ [last (movements (fst (deduct_stock_dec ar d u pk (Parsed (Finite f)) reason now)))]"
    using r(1) by blast
  from h show "quantity (last (movements (fst (deduct_stock_dec ar d u pk (Parsed (Finite f)) reason now))))
          = float_str ar f"
    using r(2) by blast
  from h show "previous_stock (last (movements (fst (deduct_stock_dec ar d u pk (Parsed (Finite f)) reason now))))
          = current_stock j"
    using r(3) by blast
  from h have "quantity (last (movements (fst (deduct_stock_dec ar d u pk (Parsed (Finite f)) reason now))))
          = float_str ar f"
    and "previous_stock (last (movements (fst (deduct_stock_dec ar d u pk (Parsed (Finite f)) reason now))))
          = current_stock j"
    and "new_stock (last (movements (fst (deduct_stock_dec ar d u pk (Parsed (Finite f)) reason now))))
          = current_stock j - float_str ar f"
    and "mv_type (last (movements (fst (deduct_stock_dec ar d u pk (Parsed (Finite f)) reason now))))
          = Out"
    using r(2) r(3) r(4) r(5) by blast+
  then show "balanced (last (movements (fst (deduct_stock_dec ar d u pk (Parsed (Finite f)) reason now))))"
    by (simp add: balanced_def signed_def)
next
  assume h: "find (\<lambda>x. poi_id x = item_id item_data \<and> poi_purchase_order x = po_id po) (po_items d)
          = Some po_item
        \<and> 0 < ri_received_quantity item_data
        \<and> find (\<lambda>i. ing_id i = poi_ingredient po_item) (ingredients d) = Some h
        \<and> stored ar (ri_received_quantity item_data) = ri_received_quantity item_data
        \<and> stored ar (current_stock h) = current_stock h
        \<and> unrounded ar (current_stock h + ri_received_quantity item_data)"
  note r = receive_item_dec_unrounded [of item_data po d po_item h ar u]
  from h show "movements (receive_item_dec ar po u item_data d) =
        movements d @ [last (movements (receive_item_dec ar po u item_data d))]"
    using r(1) by blast
  from h show "quantity (last (movements (receive_item_dec ar po u item_data d)))
          = ri_received_quantity item_data"
    using r(2) by blast
  from h show "previous_stock (last (movements (receive_item_dec ar po u item_data d)))
          = current_stock h"
    using r(3) by blast
  from h have "quantity (last (movements (receive_item_dec ar po u item_data d)))
          = ri_received_quantity item_data"
    and "previous_stock (last (movements (receive_item_dec ar po u item_data d)))
          = current_stock h"
    and "new_stock (last (movements (receive_item_dec ar po u item_data d)))
          = current_stock h + ri_received_quantity item_data"
    and "mv_type (last (movements (receive_item_dec ar po u item_data d))) = In"
    using r(2) r(3) r(4) r(5) by blast+
  then show "balanced (last (movements (receive_item_dec ar po u item_data d)))"
    by (simp add: balanced_def signed_def)
qed

text \<open>
  Columns of two decimal places, flour at 10 kg and vanilla at 10.01 kg.  Two orders for
  a custard (0.005 kg of vanilla each, rounded away in the stored rows), an order that
  takes all the flour, a receipt of 10 kg and a manual deduction of 4 kg: both ledgers
  chain, the rounded rows included.  A scone's 3 kg of flour, a manual deduction of 4 kg
  and a receipt of 10 kg round nothing, and their movements are balanced.
\<close>

theorem ledger_chained_and_balanced_witness:
  "ledger_stored two_places pantry_db
   \<and> map (\<lambda>m. (mv_type m, quantity m, previous_stock m, new_stock m))
       (ledger (run_dec two_places
                  [Order_saved order_c3, Order_saved order_c3, Order_saved order_a1,
                   Receive flour_po admin_user [receipt_10] ''2025-01-01'',
                   Manual_deduct admin_user 1 (Parsed (Finite 4)) None ''20250101120000'']
                  pantry_db) 2)
       = [(Out, 0, 1001 / 100, 10), (Out, 0, 10, 10)]
   \<and> new_stock (ledger (run_dec two_places
                  [Order_saved order_c3, Order_saved order_c3, Order_saved order_a1,
                   Receive flour_po admin_user [receipt_10] ''2025-01-01'',
                   Manual_deduct admin_user 1 (Parsed (Finite 4)) None ''20250101120000'']
                  pantry_db) 2 ! 0)
       = previous_stock (ledger (run_dec two_places
                  [Order_saved order_c3, Order_saved order_c3, Order_saved order_a1,
                   Receive flour_po admin_user [receipt_10] ''2025-01-01'',
                   Manual_deduct admin_user 1 (Parsed (Finite 4)) None ''20250101120000'']
                  pantry_db) 2 ! Suc 0)
   \<and> map (\<lambda>m. (mv_type m, quantity m, previous_stock m, new_stock m))
       (ledger (run_dec two_places
                  [Order_saved order_c3, Order_saved order_c3, Order_saved order_a1,
                   Receive flour_po admin_user [receipt_10] ''2025-01-01'',
                   Manual_deduct admin_user 1 (Parsed (Finite 4)) None ''20250101120000'']
                  pantry_db) 1)
       = [(Out, 10, 10, 0), (In, 10, 0, 10), (Out, 4, 10, 6)]
   \<and> quantity (last (movements (fst (deduct_ingredient_dec two_places scone 1 order_b2
                                        admin_user scone_line (pantry_db, []))))) = 3
   \<and> balanced (last (movements (fst (deduct_ingredient_dec two_places scone 1 order_b2
                                        admin_user scone_line (pantry_db, [])))))
   \<and> quantity (last (movements (fst (deduct_stock_dec two_places pantry_db admin_user 1
                                        (Parsed (Finite 4)) None ''20250101120000'')))) = 4
   \<and> balanced (last (movements (fst (deduct_stock_dec two_places pantry_db admin_user 1
                                        (Parsed (Finite 4)) None ''20250101120000''))))
   \<and> quantity (last (movements (receive_item_dec two_places flour_po admin_user receipt_10
                                   pantry_db))) = 10
   \<and> balanced (last (movements (receive_item_dec two_places flour_po admin_user receipt_10
                                   pantry_db)))"
proof -
  let ?ops = "[Order_saved order_c3, Order_saved order_c3, Order_saved order_a1,
               Receive flour_po admin_user [receipt_10] ''2025-01-01'',
               Manual_deduct admin_user 1 (Parsed (Finite 4)) None ''20250101120000'']"
  have idem: "\<forall>x. stored two_places (stored two_places x) = stored two_places x"
    by (simp add: two_places_def python_decimal_def quantize_idem)
  have inv: "ledger_stored two_places pantry_db"
    by code_simp
  have len: "Suc 0 < length (ledger (run_dec two_places ?ops pantry_db) 2)"
    by code_simp
  have l2: "map (\<lambda>m. (mv_type m, quantity m, previous_stock m, new_stock m))
              (ledger (run_dec two_places ?ops pantry_db) 2)
            = [(Out, 0, 1001 / 100, 10), (Out, 0, 10, 10)]"
    by code_simp
  have l1: "map (\<lambda>m. (mv_type m, quantity m, previous_stock m, new_stock m))
              (ledger (run_dec two_places ?ops pantry_db) 1)
            = [(Out, 10, 10, 0), (In, 10, 0, 10), (Out, 4, 10, 6)]"
    by code_simp
  have a: "d_name scone_line = Some ''FLOUR'' \<and> ''FLOUR'' \<noteq> [] \<and> d_quantity scone_line = Some 3
        \<and> (0::rat) < 3
        \<and> filter (\<lambda>i. iexact (ing_name i) ''FLOUR'') (ingredients pantry_db) = flour # []
        \<and> (3::rat) = (if current_stock flour < ctx two_places (3 * of_int 1) then current_stock flour
                     else ctx two_places (3 * of_int 1))
        \<and> (0::rat) < 3 \<and> stored two_places 3 = 3
        \<and> stored two_places (current_stock flour) = current_stock flour
        \<and> unrounded two_places (current_stock flour - 3)"
    by code_simp
  have b: "get_object pantry_db admin_user 1 = Inr flour \<and> (0::rat) < 4 \<and> \<not> current_stock flour < 4
        \<and> stored two_places (float_str two_places 4) = float_str two_places 4
        \<and> stored two_places (current_stock flour) = current_stock flour
        \<and> unrounded two_places (current_stock flour - float_str two_places 4)"
    by code_simp
  have c: "find (\<lambda>x. poi_id x = item_id receipt_10 \<and> poi_purchase_order x = po_id flour_po)
             (po_items pantry_db) = Some flour_po_item
        \<and> 0 < ri_received_quantity receipt_10
        \<and> find (\<lambda>i. ing_id i = poi_ingredient flour_po_item) (ingredients pantry_db) = Some flour
        \<and> stored two_places (ri_received_quantity receipt_10) = ri_received_quantity receipt_10
        \<and> stored two_places (current_stock flour) = current_stock flour
        \<and> unrounded two_places (current_stock flour + ri_received_quantity receipt_10)"
    by code_simp
  have f4: "float_str two_places 4 = 4"
    by code_simp
  have r10: "ri_received_quantity receipt_10 = 10"
    by (simp add: receipt_10_def)
  note t = ledger_chained_and_balanced
      [where ar = two_places and ?d0.0 = pantry_db and ops = ?ops
         and idata = scone_line and n = "''FLOUR''" and q = 3 and d = pantry_db and i = flour
         and others = "[]" and needed = 3 and qty = 1 and ck = scone and ord = order_b2
         and su = admin_user and evs = "[]" and u = admin_user and pk = 1 and j = flour
         and f = 4 and reason = None and now = "''20250101120000''"
         and item_data = receipt_10 and po = flour_po and po_item = flour_po_item
         and h = flour]
  have chain: "new_stock (ledger (run_dec two_places ?ops pantry_db) 2 ! 0)
         = previous_stock (ledger (run_dec two_places ?ops pantry_db) 2 ! Suc 0)"
    using t idem inv len by blast
  have auto_row: "quantity (last (movements (fst (deduct_ingredient_dec two_places scone 1 order_b2
                                        admin_user scone_line (pantry_db, []))))) = 3
     \<and> balanced (last (movements (fst (deduct_ingredient_dec two_places scone 1 order_b2
                                        admin_user scone_line (pantry_db, [])))))"
    using t a by blast
  have manual_row: "quantity (last (movements (fst (deduct_stock_dec two_places pantry_db admin_user 1
                                        (Parsed (Finite 4)) None ''20250101120000''))))
       = float_str two_places 4
     \<and> balanced (last (movements (fst (deduct_stock_dec two_places pantry_db admin_user 1
                                        (Parsed (Finite 4)) None ''20250101120000''))))"
    using t b by blast
  have receipt_row: "quantity (last (movements (receive_item_dec two_places flour_po admin_user
                                   receipt_10 pantry_db))) = ri_received_quantity receipt_10
     \<and> balanced (last (movements (receive_item_dec two_places flour_po admin_user receipt_10
                                   pantry_db)))"
    using t c by blast
  show ?thesis
    using inv l2 chain l1 auto_row manual_row receipt_row f4 r10 by simp
qed

section \<open>Receiving the same line twice\<close>

lemma po_items_stock_register_add [simp]:
  "po_items (stock_register_add ing q cost ref note actor d) = po_items d"
proof (cases "find (\<lambda>i. ing_id i = ing) (ingredients d)")
  case None
  then show ?thesis
    by (simp add: stock_register_add_def)
next
  case (Some i)
  then show ?thesis
    by (rule stock_register_add_found(3))
qed

lemma find_map_overwrite:
  assumes "find P xs = Some x" and px: "P x'" and key: "\<And>r. P r \<Longrightarrow> key r = key x'"
  shows "find P (map (\<lambda>r. if key r = key x' then x' else r) xs) = Some x'"
  using assms(1)
proof (induction xs)
  case Nil
  then show ?case by simp
next
  case (Cons a xs)
  show ?case
  proof (cases "key a = key x'")
    case True
    then show ?thesis
      using px by simp
  next
    case False
    then have "\<not> P a"
      using key by blast
    then show ?thesis
      using Cons False by simp
  qed
qed

lemma map_overwrite_twice:
  "map (\<lambda>r. if key r = key x then x else r) (map (\<lambda>r. if key r = key x then x else r) xs)
     = map (\<lambda>r. if key r = key x then x else r) xs"
  by (induction xs) simp_all

lemma po_items_receive_item:
  assumes "find (\<lambda>x. poi_id x = item_id item_data \<and> poi_purchase_order x = po_id po) (po_items d)
             = Some po_item"
  shows "po_items (receive_item po u item_data d) =
           map (\<lambda>r. if poi_id r = poi_id po_item
                     then po_item\<lparr>received_quantity := ri_received_quantity item_data\<rparr> else r)
             (po_items d)"
  using assms by (simp add: receive_item_def Let_def save_po_item_def)

lemma find_after_receive_item:
  assumes "find (\<lambda>x. poi_id x = item_id item_data \<and> poi_purchase_order x = po_id po) (po_items d)
             = Some po_item"
  shows "find (\<lambda>x. poi_id x = item_id item_data \<and> poi_purchase_order x = po_id po)
           (po_items (receive_item po u item_data d))
         = Some (po_item\<lparr>received_quantity := ri_received_quantity item_data\<rparr>)"
proof -
  let ?x' = "po_item\<lparr>received_quantity := ri_received_quantity item_data\<rparr>"
  have p: "poi_id po_item = item_id item_data \<and> poi_purchase_order po_item = po_id po"
    using find_Some_holds [OF assms] .
  have "find (\<lambda>x. poi_id x = item_id item_data \<and> poi_purchase_order x = po_id po)
          (map (\<lambda>r. if poi_id r = poi_id ?x' then ?x' else r) (po_items d)) = Some ?x'"
    using assms
  proof (rule find_map_overwrite)
    show "poi_id ?x' = item_id item_data \<and> poi_purchase_order ?x' = po_id po"
      using p by simp
    show "poi_id r = poi_id ?x'"
      if "poi_id r = item_id item_data \<and> poi_purchase_order r = po_id po" for r
      using that p by simp
  qed
  then show ?thesis
    using assms by (simp add: po_items_receive_item)
qed

lemma receive_item_nonpositive_twice:
  assumes "find (\<lambda>x. poi_id x = item_id item_data \<and> poi_purchase_order x = po_id po) (po_items d)
             = Some po_item"
    and "\<not> 0 < ri_received_quantity item_data"
  shows "receive_item po u item_data (receive_item po u item_data d) = receive_item po u item_data d"
proof -
  let ?x' = "po_item\<lparr>received_quantity := ri_received_quantity item_data\<rparr>"
  have first: "receive_item po u item_data d = save_po_item ?x' d"
    using assms by (simp add: receive_item_def Let_def)
  have "find (\<lambda>x. poi_id x = item_id item_data \<and> poi_purchase_order x = po_id po)
          (po_items (save_po_item ?x' d)) = Some ?x'"
    using find_after_receive_item [OF assms(1), of u] first by simp
  then have "receive_item po u item_data (save_po_item ?x' d) = save_po_item ?x' (save_po_item ?x' d)"
    using assms(2) by (simp add: receive_item_def Let_def)
  also have "\<dots> = save_po_item ?x' d"
    using map_overwrite_twice [of poi_id ?x' "po_items d"] by (simp add: save_po_item_def)
  finally show ?thesis
    using first by simp
qed

lemma receive_item_positive_twice:
  assumes f: "find (\<lambda>x. poi_id x = item_id item_data \<and> poi_purchase_order x = po_id po)
                (po_items d) = Some po_item"
    and pos: "0 < ri_received_quantity item_data"
    and ing: "find (\<lambda>i. ing_id i = poi_ingredient po_item) (ingredients d) = Some i"
  shows "movements (receive_item po u item_data (receive_item po u item_data d)) =
           movements (receive_item po u item_data d) @
           [\<lparr>mv_ingredient = poi_ingredient po_item, mv_type = In,
             quantity = ri_received_quantity item_data,
             previous_stock = current_stock i + ri_received_quantity item_data,
             new_stock = current_stock i + ri_received_quantity item_data
                         + ri_received_quantity item_data,
             mv_unit_cost = poi_unit_cost po_item,
             total_value = ri_received_quantity item_data * poi_unit_cost po_item,
             reference = ''PO #'' @ po_number po,
             mv_notes = ''Received from purchase order'',
             created_by = user_id u\<rparr>]"
    and "find (\<lambda>i. ing_id i = poi_ingredient po_item)
           (ingredients (receive_item po u item_data (receive_item po u item_data d)))
         = Some (i\<lparr>current_stock := current_stock i + ri_received_quantity item_data
                                     + ri_received_quantity item_data,
                    unit_cost := poi_unit_cost po_item\<rparr>)"
proof -
  define q where "q = ri_received_quantity item_data"
  define x' where "x' = po_item\<lparr>received_quantity := q\<rparr>"
  define d1 where "d1 = receive_item po u item_data d"
  define i1 where "i1 = i\<lparr>current_stock := current_stock i + q, unit_cost := poi_unit_cost po_item\<rparr>"
  define rf where "rf = ''PO #'' @ po_number po"
  define nt where "nt = ''Received from purchase order''"
  have x'_fields: "poi_ingredient x' = poi_ingredient po_item" "poi_unit_cost x' = poi_unit_cost po_item"
      "x'\<lparr>received_quantity := q\<rparr> = x'"
    by (simp_all add: x'_def)
  have first: "d1 = stock_register_add (poi_ingredient po_item) q (poi_unit_cost po_item) rf nt
                      (user_id u) (save_po_item x' d)"
    unfolding d1_def q_def x'_def rf_def nt_def using f pos by (rule receive_item_found)
  have f1: "find (\<lambda>x. poi_id x = item_id item_data \<and> poi_purchase_order x = po_id po)
              (po_items d1) = Some x'"
    unfolding d1_def x'_def q_def using f by (rule find_after_receive_item)
  have "find (\<lambda>i. ing_id i = poi_ingredient po_item) (ingredients (save_po_item x' d)) = Some i"
    using ing by simp
  then have "find (\<lambda>i. ing_id i = poi_ingredient po_item) (ingredients d1) = Some i1"
    unfolding first i1_def by (rule stock_register_add_found(1))
  then have i1': "find (\<lambda>i. ing_id i = poi_ingredient po_item)
                    (ingredients (save_po_item x' d1)) = Some i1"
    by simp
  have "receive_item po u item_data d1 =
          stock_register_add (poi_ingredient x') (ri_received_quantity item_data)
            (poi_unit_cost x') (''PO #'' @ po_number po) ''Received from purchase order''
            (user_id u) (save_po_item (x'\<lparr>received_quantity := ri_received_quantity item_data\<rparr>) d1)"
    using f1 pos by (rule receive_item_found)
  then have second: "receive_item po u item_data d1 =
      stock_register_add (poi_ingredient po_item) q (poi_unit_cost po_item) rf nt (user_id u)
        (save_po_item x' d1)"
    unfolding q_def [symmetric] x'_fields rf_def [symmetric] nt_def [symmetric] .
  have "movements (receive_item po u item_data d1) =
          movements (save_po_item x' d1) @
           [\<lparr>mv_ingredient = poi_ingredient po_item, mv_type = In, quantity = q,
             previous_stock = current_stock i1, new_stock = current_stock i1 + q,
             mv_unit_cost = poi_unit_cost po_item, total_value = q * poi_unit_cost po_item,
             reference = rf, mv_notes = nt, created_by = user_id u\<rparr>]"
    unfolding second using i1' by (rule stock_register_add_found(2))
  then show "movements (receive_item po u item_data (receive_item po u item_data d)) =
           movements (receive_item po u item_data d) @
           [\<lparr>mv_ingredient = poi_ingredient po_item, mv_type = In,
             quantity = ri_received_quantity item_data,
             previous_stock = current_stock i + ri_received_quantity item_data,
             new_stock = current_stock i + ri_received_quantity item_data
                         + ri_received_quantity item_data,
             mv_unit_cost = poi_unit_cost po_item,
             total_value = ri_received_quantity item_data * poi_unit_cost po_item,
             reference = ''PO #'' @ po_number po,
             mv_notes = ''Received from purchase order'',
             created_by = user_id u\<rparr>]"
    by (simp add: d1_def i1_def q_def rf_def nt_def)
  have "find (\<lambda>i. ing_id i = poi_ingredient po_item) (ingredients (receive_item po u item_data d1))
          = Some (i1\<lparr>current_stock := current_stock i1 + q, unit_cost := poi_unit_cost po_item\<rparr>)"
    unfolding second using i1' by (rule stock_register_add_found(1))
  then show "find (\<lambda>i. ing_id i = poi_ingredient po_item)
           (ingredients (receive_item po u item_data (receive_item po u item_data d)))
         = Some (i\<lparr>current_stock := current_stock i + ri_received_quantity item_data
                                     + ri_received_quantity item_data,
                    unit_cost := poi_unit_cost po_item\<rparr>)"
    by (simp add: d1_def i1_def q_def)
qed

lemma receive_items_single:
  "fst (receive_items d po u [item_data] today) = receive_item po u item_data d"
  by (simp add: receive_items_def Let_def)

text \<open>
  C6, as stated, fails: receiving 10 of the flour line twice leaves one movement and a
  balance of 20 after the first call, two movements and a balance of 30 after the
  second, while the line item reads 10 after both.
\<close>

theorem repeated_receipt_is_not_a_noop:
  "length (movements (fst (receive_items flour_db flour_po admin_user [receipt_10] ''2025-01-01'')))
     = 1
   \<and> length (movements (fst (receive_items
        (fst (receive_items flour_db flour_po admin_user [receipt_10] ''2025-01-01''))
        flour_po admin_user [receipt_10] ''2025-01-01''))) = 2
   \<and> map current_stock (ingredients
        (fst (receive_items flour_db flour_po admin_user [receipt_10] ''2025-01-01''))) = [20]
   \<and> map current_stock (ingredients (fst (receive_items
        (fst (receive_items flour_db flour_po admin_user [receipt_10] ''2025-01-01''))
        flour_po admin_user [receipt_10] ''2025-01-01''))) = [30]
   \<and> map received_quantity (po_items (fst (receive_items
        (fst (receive_items flour_db flour_po admin_user [receipt_10] ''2025-01-01''))
        flour_po admin_user [receipt_10] ''2025-01-01''))) = [10]"
  by code_simp

text \<open>
  C6 (amended): receiving a line of the purchase order writes the received quantity of
  the request over the line item's (last write, not a sum), and a second receive call
  for the same line with the same quantity leaves the line items exactly as the first
  call left them.  If the quantity is not above zero, the second call changes nothing at
  all.  If it is above zero (and the line's ingredient is in the table), the second call
  appends one more 'in' movement of that quantity, starting at the balance the first
  call left, and the balance grows by the quantity once more.
\<close>

theorem repeated_receipt:
  "find (\<lambda>x. poi_id x = item_id item_data \<and> poi_purchase_order x = po_id po) (po_items d)
     = Some po_item
   \<longrightarrow>
     find (\<lambda>x. poi_id x = item_id item_data \<and> poi_purchase_order x = po_id po)
       (po_items (fst (receive_items d po u [item_data] today)))
       = Some (po_item\<lparr>received_quantity := ri_received_quantity item_data\<rparr>)
     \<and> po_items (fst (receive_items (fst (receive_items d po u [item_data] today))
                       po u [item_data] today'))
       = po_items (fst (receive_items d po u [item_data] today))
     \<and> (\<not> 0 < ri_received_quantity item_data \<longrightarrow>
          fst (receive_items (fst (receive_items d po u [item_data] today))
                 po u [item_data] today')
          = fst (receive_items d po u [item_data] today))
     \<and> (0 < ri_received_quantity item_data
          \<and> find (\<lambda>i. ing_id i = poi_ingredient po_item) (ingredients d) = Some i \<longrightarrow>
          movements (fst (receive_items (fst (receive_items d po u [item_data] today))
                            po u [item_data] today'))
          = movements (fst (receive_items d po u [item_data] today)) @
            [\<lparr>mv_ingredient = poi_ingredient po_item, mv_type = In,
              quantity = ri_received_quantity item_data,
              previous_stock = current_stock i + ri_received_quantity item_data,
              new_stock = current_stock i + ri_received_quantity item_data
                          + ri_received_quantity item_data,
              mv_unit_cost = poi_unit_cost po_item,
              total_value = ri_received_quantity item_data * poi_unit_cost po_item,
              reference = ''PO #'' @ po_number po,
              mv_notes = ''Received from purchase order'',
              created_by = user_id u\<rparr>]
          \<and> find (\<lambda>i. ing_id i = poi_ingredient po_item)
              (ingredients (fst (receive_items (fst (receive_items d po u [item_data] today))
                                   po u [item_data] today')))
            = Some (i\<lparr>current_stock := current_stock i + ri_received_quantity item_data
                                        + ri_received_quantity item_data,
                       unit_cost := poi_unit_cost po_item\<rparr>))"
proof
  assume f: "find (\<lambda>x. poi_id x = item_id item_data \<and> poi_purchase_order x = po_id po)
               (po_items d) = Some po_item"
  let ?x' = "po_item\<lparr>received_quantity := ri_received_quantity item_data\<rparr>"
  let ?d1 = "receive_item po u item_data d"
  have f1: "find (\<lambda>x. poi_id x = item_id item_data \<and> poi_purchase_order x = po_id po)
              (po_items ?d1) = Some ?x'"
    using f by (rule find_after_receive_item)
  have same: "po_items (receive_item po u item_data ?d1) = po_items ?d1"
    using map_overwrite_twice [of poi_id ?x' "po_items d"]
    by (simp add: po_items_receive_item [OF f1] po_items_receive_item [OF f])
  show "find (\<lambda>x. poi_id x = item_id item_data \<and> poi_purchase_order x = po_id po)
       (po_items (fst (receive_items d po u [item_data] today)))
       = Some (po_item\<lparr>received_quantity := ri_received_quantity item_data\<rparr>)
     \<and> po_items (fst (receive_items (fst (receive_items d po u [item_data] today))
                       po u [item_data] today'))
       = po_items (fst (receive_items d po u [item_data] today))
     \<and> (\<not> 0 < ri_received_quantity item_data \<longrightarrow>
          fst (receive_items (fst (receive_items d po u [item_data] today))
                 po u [item_data] today')
          = fst (receive_items d po u [item_data] today))
     \<and> (0 < ri_received_quantity item_data
          \<and> find (\<lambda>i. ing_id i = poi_ingredient po_item) (ingredients d) = Some i \<longrightarrow>
          movements (fst (receive_items (fst (receive_items d po u [item_data] today))
                            po u [item_data] today'))
          = movements (fst (receive_items d po u [item_data] today)) @
            [\<lparr>mv_ingredient = poi_ingredient po_item, mv_type = In,
              quantity = ri_received_quantity item_data,
              previous_stock = current_stock i + ri_received_quantity item_data,
              new_stock = current_stock i + ri_received_quantity item_data
                          + ri_received_quantity item_data,
              mv_unit_cost = poi_unit_cost po_item,
              total_value = ri_received_quantity item_data * poi_unit_cost po_item,
              reference = ''PO #'' @ po_number po,
              mv_notes = ''Received from purchase order'',
              created_by = user_id u\<rparr>]
          \<and> find (\<lambda>i. ing_id i = poi_ingredient po_item)
              (ingredients (fst (receive_items (fst (receive_items d po u [item_data] today))
                                   po u [item_data] today')))
            = Some (i\<lparr>current_stock := current_stock i + ri_received_quantity item_data
                                        + ri_received_quantity item_data,
                       unit_cost := poi_unit_cost po_item\<rparr>))"
    unfolding receive_items_single
    using f1 same receive_item_nonpositive_twice [OF f, of u]
      receive_item_positive_twice [OF f, of i u]
    by blast
qed

theorem repeated_receipt_witness:
  "po_items (fst (receive_items
        (fst (receive_items flour_db flour_po admin_user [receipt_10] ''2025-01-01''))
        flour_po admin_user [receipt_10] ''2025-01-02''))
     = po_items (fst (receive_items flour_db flour_po admin_user [receipt_10] ''2025-01-01''))
   \<and> movements (fst (receive_items
        (fst (receive_items flour_db flour_po admin_user [receipt_10] ''2025-01-01''))
        flour_po admin_user [receipt_10] ''2025-01-02''))
     = movements (fst (receive_items flour_db flour_po admin_user [receipt_10] ''2025-01-01'')) @
       [\<lparr>mv_ingredient = 1, mv_type = In, quantity = 10, previous_stock = 20, new_stock = 30,
         mv_unit_cost = 3, total_value = 30, reference = ''PO #PO-001'',
         mv_notes = ''Received from purchase order'', created_by = 7\<rparr>]"
proof -
  have a: "find (\<lambda>x. poi_id x = item_id receipt_10 \<and> poi_purchase_order x = po_id flour_po)
             (po_items flour_db) = Some flour_po_item"
    by code_simp
  have b: "find (\<lambda>i. ing_id i = poi_ingredient flour_po_item) (ingredients flour_db) = Some flour"
    by code_simp
  have c: "0 < ri_received_quantity receipt_10"
    by (simp add: receipt_10_def)
  have "po_items (fst (receive_items
        (fst (receive_items flour_db flour_po admin_user [receipt_10] ''2025-01-01''))
        flour_po admin_user [receipt_10] ''2025-01-02''))
     = po_items (fst (receive_items flour_db flour_po admin_user [receipt_10] ''2025-01-01''))
   \<and> movements (fst (receive_items
        (fst (receive_items flour_db flour_po admin_user [receipt_10] ''2025-01-01''))
        flour_po admin_user [receipt_10] ''2025-01-02''))
     = movements (fst (receive_items flour_db flour_po admin_user [receipt_10] ''2025-01-01'')) @
       [\<lparr>mv_ingredient = poi_ingredient flour_po_item, mv_type = In,
         quantity = ri_received_quantity receipt_10,
         previous_stock = current_stock flour + ri_received_quantity receipt_10,
         new_stock = current_stock flour + ri_received_quantity receipt_10
                     + ri_received_quantity receipt_10,
         mv_unit_cost = poi_unit_cost flour_po_item,
         total_value = ri_received_quantity receipt_10 * poi_unit_cost flour_po_item,
         reference = ''PO #'' @ po_number flour_po,
         mv_notes = ''Received from purchase order'',
         created_by = user_id admin_user\<rparr>]"
    using repeated_receipt [of receipt_10 flour_po flour_db flour_po_item admin_user
        "''2025-01-01''" "''2025-01-02''" flour] a b c
    by blast
  then show ?thesis
    by (simp add: flour_def flour_po_item_def receipt_10_def flour_po_def admin_user_def)
qed

end
